theory Spec2Isabelle
  imports Main "HOL-Library.Word" "HOL-Library.AList"
begin

section \<open>Workflow templates kept in a relational store and a cluster store\<close>

text \<open>
  A shallow embedding of \<^verbatim>\<open>pkg/workflow_template.go\<close>. The relational database is a
  pair of tables with two sequences, the cluster store a list of labelled objects with
  the history of the requests sent to it. Every call to a store may fail: the failure of
  each call site is read from a record of faults, so that each \<^verbatim>\<open>if err != nil\<close> of
  the source is a branch of the model.
\<close>

subsection \<open>Errors\<close>

datatype code = InvalidArgument | NotFound | AlreadyExists | Unknown

datatype error =
    UserError code string  \<comment> \<open>\<^verbatim>\<open>util.NewUserError(code, message)\<close>\<close>
  | ErrNoRows              \<comment> \<open>\<^verbatim>\<open>sql.ErrNoRows\<close>\<close>
  | ErrorString string     \<comment> \<open>\<^verbatim>\<open>errors.New(message)\<close>\<close>
  | NumError string        \<comment> \<open>\<^verbatim>\<open>strconv.ParseInt\<close> failing\<close>
  | DriverError string     \<comment> \<open>a failure reported by the database\<close>
  | StatusError string     \<comment> \<open>a failure reported by the cluster API\<close>
  | OtherError string      \<comment> \<open>a failure of a collaborator outside this file\<close>

text \<open>A Go call either returns or panics; a panic unwinds through every caller here.\<close>

datatype 'a go = Returns 'a | Panics string

subsection \<open>Decimal text of 64-bit integers\<close>

type_synonym int64 = "64 word"

definition digit_char :: "nat \<Rightarrow> char" where
  "digit_char d = char_of (48 + d)"

definition is_digit :: "char \<Rightarrow> bool" where
  "is_digit c = (48 \<le> (of_char c :: nat) \<and> (of_char c :: nat) \<le> 57)"

definition digit_val :: "char \<Rightarrow> nat" where
  "digit_val c = of_char c - 48"

function nat_dec :: "nat \<Rightarrow> string" where
  "nat_dec n = (if n < 10 then [digit_char n] else nat_dec (n div 10) @ [digit_char (n mod 10)])"
  by pat_completeness auto
termination
  by (relation "measure id") auto

declare nat_dec.simps [simp del]

text \<open>\<^verbatim>\<open>fmt.Sprintf("%v", version)\<close> for an \<^verbatim>\<open>int64\<close>.\<close>

definition Sprintf_v :: "int64 \<Rightarrow> string" where
  "Sprintf_v v = (if sint v < 0 then CHR ''-'' # nat_dec (nat (- sint v)) else nat_dec (nat (sint v)))"

fun digits_val :: "nat \<Rightarrow> string \<Rightarrow> nat option" where
  "digits_val acc [] = Some acc"
| "digits_val acc (c # cs) = (if is_digit c then digits_val (acc * 10 + digit_val c) cs else None)"

text \<open>
  \<^verbatim>\<open>strconv.ParseInt(s, 10, 64)\<close>: an optional sign, then one or more decimal digits;
  a value outside the 64-bit signed range is an error.
\<close>

definition ParseInt :: "string \<Rightarrow> error + int64" where
  "ParseInt s =
     (let neg = (case s of c # _ \<Rightarrow> c = CHR ''-'' | [] \<Rightarrow> False);
          ds = (case s of c # r \<Rightarrow> (if c = CHR ''+'' \<or> c = CHR ''-'' then r else s) | [] \<Rightarrow> [])
      in if ds = [] then Inl (NumError ''invalid syntax'')
         else (case digits_val 0 ds of
                 None \<Rightarrow> Inl (NumError ''invalid syntax'')
               | Some n \<Rightarrow>
                   (let i = (if neg then - int n else int n)
                    in if i < - (2 ^ 63) \<or> 2 ^ 63 \<le> i then Inl (NumError ''value out of range'')
                       else Inr (word_of_int i))))"

subsection \<open>Labels\<close>

text \<open>A Go \<^verbatim>\<open>map[string]string\<close>, kept as an association list read with \<^const>\<open>map_of\<close>.\<close>

type_synonym labels = "(string \<times> string) list"

text \<open>
  Modelled from the spec: the constants of package \<^verbatim>\<open>label\<close> (the four reserved keys and
  the tag prefix) are declared outside this file; the keys are the ones the cluster store
  contract names.
\<close>

definition label_WorkflowTemplate :: string where
  "label_WorkflowTemplate = ''template-name''"

definition label_WorkflowTemplateUid :: string where
  "label_WorkflowTemplateUid = ''template-identity''"

definition label_Version :: string where
  "label_Version = ''version''"

definition label_VersionLatest :: string where
  "label_VersionLatest = ''version-latest''"

definition label_TagPrefix :: string where
  "label_TagPrefix = ''tags/''"

text \<open>
  Modelled from the spec: \<^verbatim>\<open>label.MergeLabelsPrefix\<close> adds the caller's tags to the label
  set with every key put under the prefix; \<^verbatim>\<open>label.FilterByPrefix\<close> keeps the entries
  whose key starts with the prefix; \<^verbatim>\<open>label.RemovePrefix\<close> strips it from the keys.
\<close>

definition MergeLabelsPrefix :: "labels \<Rightarrow> labels \<Rightarrow> string \<Rightarrow> labels" where
  "MergeLabelsPrefix ls tags pre = fold (\<lambda>(k, v) acc. AList.update (pre @ k) v acc) tags ls"

definition FilterByPrefix :: "string \<Rightarrow> labels \<Rightarrow> labels" where
  "FilterByPrefix pre ls = filter (\<lambda>(k, v). take (length pre) k = pre) ls"

definition RemovePrefix :: "string \<Rightarrow> labels \<Rightarrow> labels" where
  "RemovePrefix pre ls = map (\<lambda>(k, v). (if take (length pre) k = pre then drop (length pre) k else k, v)) ls"

subsection \<open>The template as the callers see it\<close>

text \<open>The cluster-resident object (\<^verbatim>\<open>v1alpha1.WorkflowTemplate\<close>), with the metadata this file reads or writes.\<close>

record argo_wft =
  wft_Name :: string
  wft_Namespace :: string
  wft_Labels :: labels
  wft_Annotations :: labels
  wft_CreationTimestamp :: int64
  wft_TypeMeta :: string
  wft_ResourceVersion :: string
  wft_SelfLink :: string
  wft_Spec :: string

record WorkflowTemplate =
  ID :: nat
  CreatedAt :: int64
  UID :: string
  Name :: string
  Manifest :: string
  Version :: int64
  Versions :: nat
  IsLatest :: bool
  IsArchived :: bool
  ArgoWorkflowTemplate :: "argo_wft option"
  Labels :: labels
  WorkflowExecutionStatisticReport :: "string option"

text \<open>The zero value \<^verbatim>\<open>&WorkflowTemplate{}\<close>.\<close>

definition WorkflowTemplate_zero :: WorkflowTemplate where
  "WorkflowTemplate_zero =
     \<lparr>ID = 0, CreatedAt = 0, UID = [], Name = [], Manifest = [], Version = 0, Versions = 0,
      IsLatest = False, IsArchived = False, ArgoWorkflowTemplate = None, Labels = [],
      WorkflowExecutionStatisticReport = None\<rparr>"

record WorkflowTemplateVersion =
  wtv_ID :: nat
  wtv_UID :: string
  wtv_Version :: int64
  wtv_IsLatest :: bool
  wtv_Manifest :: string
  wtv_CreatedAt :: int64

definition WorkflowTemplateVersion_zero :: WorkflowTemplateVersion where
  "WorkflowTemplateVersion_zero =
     \<lparr>wtv_ID = 0, wtv_UID = [], wtv_Version = 0, wtv_IsLatest = False, wtv_Manifest = [],
      wtv_CreatedAt = 0\<rparr>"

subsection \<open>The two stores\<close>

text \<open>Rows of \<^verbatim>\<open>workflow_templates\<close> and of \<^verbatim>\<open>workflow_template_versions\<close>.\<close>

record template_row =
  t_id :: nat
  t_uid :: string
  t_name :: string
  t_namespace :: string
  t_is_archived :: bool
  t_created_at :: int64

record version_row =
  v_id :: nat
  v_workflow_template_id :: nat
  v_version :: int64
  v_is_latest :: bool
  v_manifest :: string
  v_created_at :: int64

text \<open>What a transaction works on, and what a commit writes back.\<close>

record tables =
  templates :: "template_row list"
  versions :: "version_row list"

text \<open>A request sent to the cluster store, kept with its outcome.\<close>

datatype request =
    ArgoCreate string "argo_wft option"
  | ArgoDelete string string
  | ArgoUpdate string argo_wft
  | ArgoList string labels

text \<open>
  The world: the committed tables, the two id sequences (a sequence is not part of a
  transaction: a rolled-back insert has still consumed its id), the cluster objects, and
  the requests issued to the cluster store so far, oldest first.
\<close>

record world =
  committed :: tables
  next_template_id :: nat
  next_version_id :: nat
  objects :: "argo_wft list"
  requests :: "(request \<times> error option) list"

definition issued :: "world \<Rightarrow> world \<Rightarrow> (request \<times> error option) list" where
  "issued w w' = drop (length (requests w)) (requests w')"

text \<open>
  The failure, if any, of each call site that reaches a store. \<^verbatim>\<open>None\<close> lets the call
  run on the store as it is.
\<close>

record faults =
  f_Begin :: "error option"
  f_InsertTemplate :: "error option"
  f_InsertVersion :: "error option"
  f_UpdateVersions :: "error option"
  f_Commit :: "error option"
  f_Get :: "error option"
  f_Select :: "error option"
  f_SelectVersions :: "error option"
  f_ExecArchive :: "error option"
  f_ArgoCreate :: "error option"
  f_ArgoDelete :: "error option"
  f_ArgoUpdate :: "error option"
  f_ArgoGetList :: "error option"
  f_ArgoList :: "error option"

definition no_faults :: faults where
  "no_faults =
     \<lparr>f_Begin = None, f_InsertTemplate = None, f_InsertVersion = None, f_UpdateVersions = None,
      f_Commit = None, f_Get = None, f_Select = None, f_SelectVersions = None,
      f_ExecArchive = None, f_ArgoCreate = None, f_ArgoDelete = None, f_ArgoUpdate = None,
      f_ArgoGetList = None, f_ArgoList = None\<rparr>"

text \<open>
  What this file calls and does not define: the methods of \<^verbatim>\<open>WorkflowTemplate\<close>, the
  manifest validation, the YAML decoder, the error wrapper, the execution statistics, and
  the clock (\<^verbatim>\<open>time.Now().Unix()\<close>).
\<close>

record collaborators =
  GenerateUID :: "WorkflowTemplate \<Rightarrow> error + string \<times> WorkflowTemplate"
  WrapSpec :: "WorkflowTemplate \<Rightarrow> error + string"
  ValidateWorkflowExecution :: "string \<Rightarrow> string \<Rightarrow> error option"
  Unmarshal :: "string \<Rightarrow> error + argo_wft"
  GetParametersKeyString :: "WorkflowTemplate \<Rightarrow> error + labels"
  NewUserErrorWrap :: "error \<Rightarrow> string \<Rightarrow> error"
  GetWorkflowExecutionStatistics :: "WorkflowTemplate list \<Rightarrow> error + (WorkflowTemplate \<Rightarrow> string option)"
  Now_Unix :: int64

subsection \<open>Statements of the relational store\<close>

text \<open>
  \<^verbatim>\<open>INSERT INTO workflow_templates (uid, name, namespace) ... RETURNING id\<close>, run in a
  transaction: the row goes to the transaction's tables, the id comes from the sequence.
\<close>

definition insert_template ::
  "faults \<Rightarrow> int64 \<Rightarrow> string \<Rightarrow> string \<Rightarrow> string \<Rightarrow> tables \<Rightarrow> world \<Rightarrow> (error + nat \<times> tables) \<times> world" where
  "insert_template flt now uid name namespace tx w =
     (case f_InsertTemplate flt of
        Some e \<Rightarrow> (Inl e, w)
      | None \<Rightarrow>
          (let i = next_template_id w;
               row = \<lparr>t_id = i, t_uid = uid, t_name = name, t_namespace = namespace,
                      t_is_archived = False, t_created_at = now\<rparr>
           in (Inr (i, tx\<lparr>templates := templates tx @ [row]\<rparr>), w\<lparr>next_template_id := Suc i\<rparr>)))"

text \<open>\<^verbatim>\<open>INSERT INTO workflow_template_versions (workflow_template_id, version, is_latest, manifest)\<close>.\<close>

definition insert_version ::
  "faults \<Rightarrow> int64 \<Rightarrow> nat \<Rightarrow> int64 \<Rightarrow> bool \<Rightarrow> string \<Rightarrow> tables \<Rightarrow> world \<Rightarrow> (error + tables) \<times> world" where
  "insert_version flt now template_id version is_latest manifest tx w =
     (case f_InsertVersion flt of
        Some e \<Rightarrow> (Inl e, w)
      | None \<Rightarrow>
          (let i = next_version_id w;
               row = \<lparr>v_id = i, v_workflow_template_id = template_id, v_version = version,
                      v_is_latest = is_latest, v_manifest = manifest, v_created_at = now\<rparr>
           in (Inr (tx\<lparr>versions := versions tx @ [row]\<rparr>), w\<lparr>next_version_id := Suc i\<rparr>)))"

text \<open>\<^verbatim>\<open>UPDATE workflow_template_versions SET is_latest = false WHERE workflow_template_id = ?\<close>.\<close>

definition update_versions_not_latest :: "faults \<Rightarrow> nat \<Rightarrow> tables \<Rightarrow> error + tables" where
  "update_versions_not_latest flt template_id tx =
     (case f_UpdateVersions flt of
        Some e \<Rightarrow> Inl e
      | None \<Rightarrow>
          Inr (tx\<lparr>versions :=
                 map (\<lambda>v. if v_workflow_template_id v = template_id then v\<lparr>v_is_latest := False\<rparr> else v)
                   (versions tx)\<rparr>))"

text \<open>
  \<^verbatim>\<open>UPDATE workflow_templates SET is_archived = true WHERE uid = ? AND namespace = ?\<close>,
  run on the database itself. The statement succeeds whatever the number of rows it
  matches.
\<close>

definition exec_archive :: "faults \<Rightarrow> string \<Rightarrow> string \<Rightarrow> world \<Rightarrow> error option \<times> world" where
  "exec_archive flt namespace uid w =
     (case f_ExecArchive flt of
        Some e \<Rightarrow> (Some e, w)
      | None \<Rightarrow>
          (None,
           w\<lparr>committed := (committed w)\<lparr>templates :=
                map (\<lambda>t. if t_uid t = uid \<and> t_namespace t = namespace then t\<lparr>t_is_archived := True\<rparr> else t)
                  (templates (committed w))\<rparr>\<rparr>))"

text \<open>
  \<^verbatim>\<open>tx.Commit()\<close>: the transaction's tables become the committed ones, or the commit
  fails and leaves the committed tables as they were.
\<close>

definition commit :: "faults \<Rightarrow> tables \<Rightarrow> world \<Rightarrow> error option \<times> world" where
  "commit flt tx w =
     (case f_Commit flt of
        Some e \<Rightarrow> (Some e, w)
      | None \<Rightarrow> (None, w\<lparr>committed := tx\<rparr>))"

subsection \<open>Requests to the cluster store\<close>

text \<open>
  A selector \<^verbatim>\<open>k1=v1,k2=v2\<close> is kept as the list of its equalities; an object matches
  when it is in the namespace and carries every one of them.
\<close>

definition matches :: "string \<Rightarrow> labels \<Rightarrow> argo_wft \<Rightarrow> bool" where
  "matches namespace sel obj =
     (wft_Namespace obj = namespace \<and> list_all (\<lambda>(k, v). map_of (wft_Labels obj) k = Some v) sel)"

definition record_request :: "request \<Rightarrow> error option \<Rightarrow> world \<Rightarrow> world" where
  "record_request rq outcome w = w\<lparr>requests := requests w @ [(rq, outcome)]\<rparr>"

text \<open>
  \<^verbatim>\<open>WorkflowTemplates(namespace).Create(obj)\<close>. The store refuses a request without a
  body (a nil object) and a name already taken in the namespace.
\<close>

definition argo_Create ::
  "faults \<Rightarrow> int64 \<Rightarrow> string \<Rightarrow> argo_wft option \<Rightarrow> world \<Rightarrow> (error + argo_wft) \<times> world" where
  "argo_Create flt now namespace obj w =
     (case f_ArgoCreate flt of
        Some e \<Rightarrow> (Inl e, record_request (ArgoCreate namespace obj) (Some e) w)
      | None \<Rightarrow>
          (case obj of
             None \<Rightarrow>
               (Inl (StatusError ''no object''),
                record_request (ArgoCreate namespace obj) (Some (StatusError ''no object'')) w)
           | Some x \<Rightarrow>
               (if list_ex (\<lambda>ob. wft_Namespace ob = namespace \<and> wft_Name ob = wft_Name x) (objects w)
                then (Inl (StatusError ''already exists''),
                      record_request (ArgoCreate namespace obj) (Some (StatusError ''already exists'')) w)
                else (let y = x\<lparr>wft_Namespace := namespace, wft_CreationTimestamp := now\<rparr>
                      in (Inr y, record_request (ArgoCreate namespace obj) None
                                   (w\<lparr>objects := objects w @ [y]\<rparr>))))))"

text \<open>\<^verbatim>\<open>WorkflowTemplates(namespace).Delete(name, &v1.DeleteOptions{})\<close>.\<close>

definition argo_Delete :: "faults \<Rightarrow> string \<Rightarrow> string \<Rightarrow> world \<Rightarrow> error option \<times> world" where
  "argo_Delete flt namespace name w =
     (case f_ArgoDelete flt of
        Some e \<Rightarrow> (Some e, record_request (ArgoDelete namespace name) (Some e) w)
      | None \<Rightarrow>
          (if list_ex (\<lambda>ob. wft_Namespace ob = namespace \<and> wft_Name ob = name) (objects w)
           then (None, record_request (ArgoDelete namespace name) None
                         (w\<lparr>objects := filter (\<lambda>ob. \<not> (wft_Namespace ob = namespace \<and> wft_Name ob = name)) (objects w)\<rparr>))
           else (Some (StatusError ''not found''),
                 record_request (ArgoDelete namespace name) (Some (StatusError ''not found'')) w)))"

text \<open>\<^verbatim>\<open>WorkflowTemplates(namespace).Update(obj)\<close>: replaces the object of that name.\<close>

definition argo_Update :: "faults \<Rightarrow> string \<Rightarrow> argo_wft \<Rightarrow> world \<Rightarrow> (error + argo_wft) \<times> world" where
  "argo_Update flt namespace obj w =
     (case f_ArgoUpdate flt of
        Some e \<Rightarrow> (Inl e, record_request (ArgoUpdate namespace obj) (Some e) w)
      | None \<Rightarrow>
          (if list_ex (\<lambda>ob. wft_Namespace ob = namespace \<and> wft_Name ob = wft_Name obj) (objects w)
           then (Inr obj, record_request (ArgoUpdate namespace obj) None
                            (w\<lparr>objects :=
                                 map (\<lambda>ob. if wft_Namespace ob = namespace \<and> wft_Name ob = wft_Name obj
                                          then obj\<lparr>wft_Namespace := namespace\<rparr> else ob) (objects w)\<rparr>))
           else (Inl (StatusError ''not found''),
                 record_request (ArgoUpdate namespace obj) (Some (StatusError ''not found'')) w)))"

text \<open>\<^verbatim>\<open>WorkflowTemplates(namespace).List(v1.ListOptions{LabelSelector: sel})\<close>.\<close>

definition argo_List ::
  "error option \<Rightarrow> string \<Rightarrow> labels \<Rightarrow> world \<Rightarrow> (error + argo_wft list) \<times> world" where
  "argo_List fault namespace sel w =
     (case fault of
        Some e \<Rightarrow> (Inl e, record_request (ArgoList namespace sel) (Some e) w)
      | None \<Rightarrow> (Inr (filter (matches namespace sel) (objects w)),
                 record_request (ArgoList namespace sel) None w))"

subsection \<open>Select statements\<close>

text \<open>
  The statements are assembled with a builder, as in the source, and run by the
  database. Only what the statements of this file use is modelled: the two tables under
  their aliases \<^verbatim>\<open>wt\<close> and \<^verbatim>\<open>wtv\<close>, the one join condition
  \<^verbatim>\<open>wt.id = wtv.workflow_template_id\<close>, equalities in \<^verbatim>\<open>WHERE\<close>, \<^verbatim>\<open>GROUP BY\<close> with
  \<^verbatim>\<open>COUNT(wtv.*)\<close>, \<^verbatim>\<open>DISTINCT ON\<close>, \<^verbatim>\<open>ORDER BY\<close> and \<^verbatim>\<open>LIMIT\<close>.
\<close>

datatype tbl = Wt | Wtv

datatype column =
    Wt_id | Wt_created_at | Wt_uid | Wt_name | Wt_namespace | Wt_is_archived
  | Wtv_id | Wtv_workflow_template_id | Wtv_version | Wtv_is_latest | Wtv_manifest | Wtv_created_at
  | Count_wtv

datatype val = VNat nat | VInt int64 | VStr string | VBool bool

fun table_of :: "column \<Rightarrow> tbl" where
  "table_of Wt_id = Wt"
| "table_of Wt_created_at = Wt"
| "table_of Wt_uid = Wt"
| "table_of Wt_name = Wt"
| "table_of Wt_namespace = Wt"
| "table_of Wt_is_archived = Wt"
| "table_of Wtv_id = Wtv"
| "table_of Wtv_workflow_template_id = Wtv"
| "table_of Wtv_version = Wtv"
| "table_of Wtv_is_latest = Wtv"
| "table_of Wtv_manifest = Wtv"
| "table_of Wtv_created_at = Wtv"
| "table_of Count_wtv = Wtv"

record SelectBuilder =
  sb_DistinctOn :: "column list"
  sb_Columns :: "column list"
  sb_From :: tbl
  sb_Joins :: "tbl list"
  sb_Where :: "(column \<times> val) list"
  sb_GroupBy :: "column list"
  sb_OrderBy :: "(column \<times> bool) list"  \<comment> \<open>\<^verbatim>\<open>True\<close> for \<^verbatim>\<open>desc\<close>\<close>
  sb_Limit :: "nat option"

text \<open>The builder is immutable: each method returns a new builder.\<close>

definition Column :: "column \<Rightarrow> SelectBuilder \<Rightarrow> SelectBuilder" where
  "Column c sb = sb\<lparr>sb_Columns := sb_Columns sb @ [c]\<rparr>"

definition Join :: "tbl \<Rightarrow> SelectBuilder \<Rightarrow> SelectBuilder" where
  "Join t sb = sb\<lparr>sb_Joins := sb_Joins sb @ [t]\<rparr>"

definition Where :: "column \<Rightarrow> val \<Rightarrow> SelectBuilder \<Rightarrow> SelectBuilder" where
  "Where c v sb = sb\<lparr>sb_Where := sb_Where sb @ [(c, v)]\<rparr>"

definition GroupBy :: "column list \<Rightarrow> SelectBuilder \<Rightarrow> SelectBuilder" where
  "GroupBy cs sb = sb\<lparr>sb_GroupBy := sb_GroupBy sb @ cs\<rparr>"

definition OrderBy :: "column \<Rightarrow> bool \<Rightarrow> SelectBuilder \<Rightarrow> SelectBuilder" where
  "OrderBy c desc sb = sb\<lparr>sb_OrderBy := sb_OrderBy sb @ [(c, desc)]\<rparr>"

definition Limit :: "nat \<Rightarrow> SelectBuilder \<Rightarrow> SelectBuilder" where
  "Limit n sb = sb\<lparr>sb_Limit := Some n\<rparr>"

definition DistinctOn :: "column list \<Rightarrow> SelectBuilder \<Rightarrow> SelectBuilder" where
  "DistinctOn cs sb = sb\<lparr>sb_DistinctOn := sb_DistinctOn sb @ cs\<rparr>"

text \<open>\<^verbatim>\<open>ToSql\<close> refuses a select without result columns.\<close>

definition ToSql :: "SelectBuilder \<Rightarrow> error + SelectBuilder" where
  "ToSql sb =
     (if sb_Columns sb = [] then Inl (ErrorString ''select statements must have at least one result column'')
      else Inr sb)"

text \<open>
  A row of the \<^verbatim>\<open>FROM\<close> clause: the template row and the version row it is joined
  with, each absent when its table is not part of the clause; after grouping, with the
  number of rows of its group.
\<close>

type_synonym jrow = "template_row option \<times> version_row option"

fun col_value :: "column \<Rightarrow> jrow \<times> nat \<Rightarrow> val option" where
  "col_value Wt_id ((t, v), n) = map_option (\<lambda>r. VNat (t_id r)) t"
| "col_value Wt_created_at ((t, v), n) = map_option (\<lambda>r. VInt (t_created_at r)) t"
| "col_value Wt_uid ((t, v), n) = map_option (\<lambda>r. VStr (t_uid r)) t"
| "col_value Wt_name ((t, v), n) = map_option (\<lambda>r. VStr (t_name r)) t"
| "col_value Wt_namespace ((t, v), n) = map_option (\<lambda>r. VStr (t_namespace r)) t"
| "col_value Wt_is_archived ((t, v), n) = map_option (\<lambda>r. VBool (t_is_archived r)) t"
| "col_value Wtv_id ((t, v), n) = map_option (\<lambda>r. VNat (v_id r)) v"
| "col_value Wtv_workflow_template_id ((t, v), n) = map_option (\<lambda>r. VNat (v_workflow_template_id r)) v"
| "col_value Wtv_version ((t, v), n) = map_option (\<lambda>r. VInt (v_version r)) v"
| "col_value Wtv_is_latest ((t, v), n) = map_option (\<lambda>r. VBool (v_is_latest r)) v"
| "col_value Wtv_manifest ((t, v), n) = map_option (\<lambda>r. VStr (v_manifest r)) v"
| "col_value Wtv_created_at ((t, v), n) = map_option (\<lambda>r. VInt (v_created_at r)) v"
| "col_value Count_wtv ((t, v), n) = Some (VNat n)"

definition bound_tables :: "SelectBuilder \<Rightarrow> tbl list" where
  "bound_tables q = sb_From q # sb_Joins q"

definition referenced :: "SelectBuilder \<Rightarrow> column list" where
  "referenced q =
     sb_DistinctOn q @ sb_Columns q @ map fst (sb_Where q) @ sb_GroupBy q @ map fst (sb_OrderBy q)"

definition aggregated :: "SelectBuilder \<Rightarrow> bool" where
  "aggregated q = (sb_GroupBy q \<noteq> [] \<or> Count_wtv \<in> set (sb_Columns q))"

text \<open>The rows of the \<^verbatim>\<open>FROM\<close> clause, the table named first in the outer loop.\<close>

definition source_rows :: "SelectBuilder \<Rightarrow> tables \<Rightarrow> jrow list" where
  "source_rows q db =
     (if Wt \<in> set (bound_tables q) \<and> Wtv \<in> set (bound_tables q) then
        (if sb_From q = Wt
         then concat (map (\<lambda>t. map (\<lambda>v. (Some t, Some v))
                                  (filter (\<lambda>v. v_workflow_template_id v = t_id t) (versions db)))
                        (templates db))
         else concat (map (\<lambda>v. map (\<lambda>t. (Some t, Some v))
                                  (filter (\<lambda>t. v_workflow_template_id v = t_id t) (templates db)))
                        (versions db)))
      else if sb_From q = Wt then map (\<lambda>t. (Some t, None)) (templates db)
      else map (\<lambda>v. (None, Some v)) (versions db))"

definition satisfies :: "(column \<times> val) list \<Rightarrow> jrow \<Rightarrow> bool" where
  "satisfies conds r = list_all (\<lambda>(c, x). col_value c (r, 0) = Some x) conds"

text \<open>One row for each group, in the order of the groups' first rows.\<close>

function group_rows :: "(jrow \<Rightarrow> 'k) \<Rightarrow> jrow list \<Rightarrow> (jrow \<times> nat) list" where
  "group_rows key [] = []"
| "group_rows key (r # rs) =
     (r, Suc (length (filter (\<lambda>x. key x = key r) rs)))
       # group_rows key (filter (\<lambda>x. key x \<noteq> key r) rs)"
  by pat_completeness auto
termination
  by (relation "measure (\<lambda>(key, rs). length rs)") (auto simp: less_Suc_eq_le)

text \<open>\<^verbatim>\<open>DISTINCT ON\<close>: the first row of each set of rows that agree on the key.\<close>

function first_per_key :: "('r \<Rightarrow> 'k) \<Rightarrow> 'r list \<Rightarrow> 'r list" where
  "first_per_key key [] = []"
| "first_per_key key (r # rs) = r # first_per_key key (filter (\<lambda>x. key x \<noteq> key r) rs)"
  by pat_completeness auto
termination
  by (relation "measure (\<lambda>(key, rs). length rs)") (auto simp: less_Suc_eq_le)

text \<open>
  The sort key of \<^verbatim>\<open>ORDER BY\<close>. The statements of this file order by \<^verbatim>\<open>wt.id\<close> and
  \<^verbatim>\<open>wtv.version\<close> only, so the key is an integer; rows with equal keys keep their order.
\<close>

fun val_key :: "val option \<Rightarrow> int" where
  "val_key (Some (VNat n)) = int n"
| "val_key (Some (VInt i)) = sint i"
| "val_key (Some (VBool b)) = (if b then 1 else 0)"
| "val_key (Some (VStr s)) = 0"
| "val_key None = 0"

definition order_rows :: "(column \<times> bool) list \<Rightarrow> (jrow \<times> nat) list \<Rightarrow> (jrow \<times> nat) list" where
  "order_rows obs rs =
     foldr (\<lambda>(c, desc) acc.
              sort_key (\<lambda>r. if desc then - val_key (col_value c r) else val_key (col_value c r)) acc)
       obs rs"

type_synonym result_row = "(column \<times> val option) list"

definition run_select :: "SelectBuilder \<Rightarrow> tables \<Rightarrow> error + result_row list" where
  "run_select q db =
     (if list_ex (\<lambda>c. table_of c \<notin> set (bound_tables q)) (referenced q)
      then Inl (DriverError ''missing FROM-clause entry for table'')
      else if aggregated q \<and> list_ex (\<lambda>c. c \<noteq> Count_wtv \<and> c \<notin> set (sb_GroupBy q)) (sb_Columns q)
      then Inl (DriverError ''column must appear in the GROUP BY clause or be used in an aggregate function'')
      else if sb_OrderBy q \<noteq> [] \<and> take (length (sb_DistinctOn q)) (map fst (sb_OrderBy q)) \<noteq> sb_DistinctOn q
      then Inl (DriverError ''SELECT DISTINCT ON expressions must match initial ORDER BY expressions'')
      else
        (let rows = filter (satisfies (sb_Where q)) (source_rows q db);
             grouped =
               (if \<not> aggregated q then map (\<lambda>r. (r, 1)) rows
                else if sb_GroupBy q = [] then [((None, None), length rows)]
                else group_rows (\<lambda>r. map (\<lambda>c. col_value c (r, 0)) (sb_GroupBy q)) rows);
             ordered = order_rows (sb_OrderBy q) grouped;
             dist =
               (if sb_DistinctOn q = [] then ordered
                else first_per_key (\<lambda>r. map (\<lambda>c. col_value c r) (sb_DistinctOn q)) ordered);
             limited = (case sb_Limit q of None \<Rightarrow> dist | Some n \<Rightarrow> take n dist)
         in Inr (map (\<lambda>r. map (\<lambda>c. (c, col_value c r)) (sb_Columns q)) limited)))"

text \<open>Scanning a result column into the field of that name; other fields keep their value.\<close>

fun scan_WorkflowTemplate :: "column \<times> val option \<Rightarrow> WorkflowTemplate \<Rightarrow> WorkflowTemplate" where
  "scan_WorkflowTemplate (Wt_id, Some (VNat n)) d = d\<lparr>ID := n\<rparr>"
| "scan_WorkflowTemplate (Wt_created_at, Some (VInt i)) d = d\<lparr>CreatedAt := i\<rparr>"
| "scan_WorkflowTemplate (Wt_uid, Some (VStr s)) d = d\<lparr>UID := s\<rparr>"
| "scan_WorkflowTemplate (Wt_name, Some (VStr s)) d = d\<lparr>Name := s\<rparr>"
| "scan_WorkflowTemplate (Wt_is_archived, Some (VBool b)) d = d\<lparr>IsArchived := b\<rparr>"
| "scan_WorkflowTemplate (Wtv_manifest, Some (VStr s)) d = d\<lparr>Manifest := s\<rparr>"
| "scan_WorkflowTemplate (Wtv_version, Some (VInt i)) d = d\<lparr>Version := i\<rparr>"
| "scan_WorkflowTemplate (Wtv_is_latest, Some (VBool b)) d = d\<lparr>IsLatest := b\<rparr>"
| "scan_WorkflowTemplate (Count_wtv, Some (VNat n)) d = d\<lparr>Versions := n\<rparr>"
| "scan_WorkflowTemplate _ d = d"

fun scan_WorkflowTemplateVersion ::
  "column \<times> val option \<Rightarrow> WorkflowTemplateVersion \<Rightarrow> WorkflowTemplateVersion" where
  "scan_WorkflowTemplateVersion (Wtv_id, Some (VNat n)) d = d\<lparr>wtv_ID := n\<rparr>"
| "scan_WorkflowTemplateVersion (Wtv_version, Some (VInt i)) d = d\<lparr>wtv_Version := i\<rparr>"
| "scan_WorkflowTemplateVersion (Wtv_is_latest, Some (VBool b)) d = d\<lparr>wtv_IsLatest := b\<rparr>"
| "scan_WorkflowTemplateVersion (Wtv_manifest, Some (VStr s)) d = d\<lparr>wtv_Manifest := s\<rparr>"
| "scan_WorkflowTemplateVersion (Wtv_created_at, Some (VInt i)) d = d\<lparr>wtv_CreatedAt := i\<rparr>"
| "scan_WorkflowTemplateVersion _ d = d"

text \<open>
  \<^verbatim>\<open>c.DB.Get(dest, query, args...)\<close>: the first row of the result scanned into
  \<^verbatim>\<open>dest\<close>, \<^verbatim>\<open>sql.ErrNoRows\<close> when there is none.
\<close>

definition DB_Get ::
  "error option \<Rightarrow> (column \<times> val option \<Rightarrow> 'a \<Rightarrow> 'a) \<Rightarrow> 'a \<Rightarrow> SelectBuilder \<Rightarrow> world \<Rightarrow> error + 'a" where
  "DB_Get fault scan dest query w =
     (case fault of
        Some e \<Rightarrow> Inl e
      | None \<Rightarrow>
          (case run_select query (committed w) of
             Inl e \<Rightarrow> Inl e
           | Inr [] \<Rightarrow> Inl ErrNoRows
           | Inr (r # _) \<Rightarrow> Inr (fold scan r dest)))"

text \<open>\<^verbatim>\<open>c.DB.Select(&dest, query, args...)\<close>: every row of the result, each scanned into a zero value.\<close>

definition DB_Select ::
  "error option \<Rightarrow> (column \<times> val option \<Rightarrow> 'a \<Rightarrow> 'a) \<Rightarrow> 'a \<Rightarrow> SelectBuilder \<Rightarrow> world \<Rightarrow> error + 'a list" where
  "DB_Select fault scan zero query w =
     (case fault of
        Some e \<Rightarrow> Inl e
      | None \<Rightarrow>
          (case run_select query (committed w) of
             Inl e \<Rightarrow> Inl e
           | Inr rows \<Rightarrow> Inr (map (\<lambda>r. fold scan r zero) rows)))"

subsection \<open>The operations of \<^verbatim>\<open>workflow_template.go\<close>\<close>

text \<open>\<^verbatim>\<open>err.Error()\<close>.\<close>

fun Error :: "error \<Rightarrow> string" where
  "Error (UserError c m) = m"
| "Error ErrNoRows = ''sql: no rows in result set''"
| "Error (ErrorString m) = m"
| "Error (NumError m) = m"
| "Error (DriverError m) = m"
| "Error (StatusError m) = m"
| "Error (OtherError m) = m"

text \<open>
  The name put on the cluster object: every run of characters outside
  \<^verbatim>\<open>[a-zA-Z0-9-]\<close> becomes one hyphen, then the letters are lower-cased.
\<close>

definition name_char :: "char \<Rightarrow> bool" where
  "name_char c =
     (let n = (of_char c :: nat)
      in (97 \<le> n \<and> n \<le> 122) \<or> (65 \<le> n \<and> n \<le> 90) \<or> (48 \<le> n \<and> n \<le> 57) \<or> c = CHR ''-'')"

fun ReplaceAllString :: "bool \<Rightarrow> string \<Rightarrow> string" where
  "ReplaceAllString in_run [] = []"
| "ReplaceAllString in_run (c # cs) =
     (if name_char c then c # ReplaceAllString False cs
      else if in_run then ReplaceAllString True cs
      else CHR ''-'' # ReplaceAllString True cs)"

definition ToLower :: "string \<Rightarrow> string" where
  "ToLower s =
     map (\<lambda>c. if 65 \<le> (of_char c :: nat) \<and> (of_char c :: nat) \<le> 90 then char_of ((of_char c :: nat) + 32) else c) s"

definition createArgoWorkflowTemplate ::
  "collaborators \<Rightarrow> WorkflowTemplate \<Rightarrow> int64 \<Rightarrow> error + argo_wft" where
  "createArgoWorkflowTemplate col workflowTemplate version =
     (case WrapSpec col workflowTemplate of
        Inl e \<Rightarrow> Inl e
      | Inr finalBytes \<Rightarrow>
          (case Unmarshal col finalBytes of
             Inl e \<Rightarrow> Inl e
           | Inr argoWft \<Rightarrow>
               (let worfklowTemplateName = ToLower (ReplaceAllString False (Name workflowTemplate));
                    labels =
                      [(label_WorkflowTemplate, worfklowTemplateName),
                       (label_WorkflowTemplateUid, UID workflowTemplate),
                       (label_Version, Sprintf_v version),
                       (label_VersionLatest, ''true'')]
                in Inr (argoWft\<lparr>wft_Name := worfklowTemplateName @ ''-v'' @ Sprintf_v version,
                                wft_Labels := MergeLabelsPrefix labels (Labels workflowTemplate) label_TagPrefix\<rparr>))))"

text \<open>
  \<^verbatim>\<open>createWorkflowTemplate\<close>. The deferred \<^verbatim>\<open>tx.Rollback()\<close> drops the transaction's
  tables on every return before the commit. The error of \<^verbatim>\<open>createArgoWorkflowTemplate\<close>
  is overwritten by the next assignment, so a nil object is sent to the cluster store
  when it fails. \<^verbatim>\<open>GenerateUID\<close> has a pointer receiver: it returns the identity and the
  receiver as it leaves it.
\<close>

definition createWorkflowTemplate ::
  "collaborators \<Rightarrow> faults \<Rightarrow> string \<Rightarrow> WorkflowTemplate \<Rightarrow> world \<Rightarrow> (error + WorkflowTemplate) \<times> world" where
  "createWorkflowTemplate col flt namespace workflowTemplate0 w =
     (case GenerateUID col workflowTemplate0 of
        Inl e \<Rightarrow> (Inl e, w)
      | Inr (uid, workflowTemplate1) \<Rightarrow>
          (case f_Begin flt of
             Some e \<Rightarrow> (Inl e, w)
           | None \<Rightarrow>
               (let tx = committed w; versionUnix = Now_Unix col
                in case insert_template flt (Now_Unix col) uid (Name workflowTemplate1) namespace tx w of
                     (Inl e, w1) \<Rightarrow> (Inl e, w1)
                   | (Inr (new_id, tx1), w1) \<Rightarrow>
                       (let workflowTemplate = workflowTemplate1\<lparr>ID := new_id\<rparr>
                        in case insert_version flt (Now_Unix col) (ID workflowTemplate) versionUnix True
                                  (Manifest workflowTemplate) tx1 w1 of
                             (Inl e, w2) \<Rightarrow> (Inl e, w2)
                           | (Inr tx2, w2) \<Rightarrow>
                               (let argoWft =
                                      (case createArgoWorkflowTemplate col workflowTemplate versionUnix of
                                         Inl e \<Rightarrow> None
                                       | Inr a \<Rightarrow> Some a)
                                in case argo_Create flt (Now_Unix col) namespace argoWft w2 of
                                     (Inl e, w3) \<Rightarrow> (Inl e, w3)
                                   | (Inr created, w3) \<Rightarrow>
                                       (case commit flt tx2 w3 of
                                          (Some e, w4) \<Rightarrow>
                                            (Inl e, snd (argo_Delete flt namespace (wft_Name created) w4))
                                        | (None, w4) \<Rightarrow>
                                            (Inr (workflowTemplate\<lparr>Version := versionUnix\<rparr>), w4)))))))"

definition workflowTemplatesSelectBuilder :: "string \<Rightarrow> SelectBuilder" where
  "workflowTemplatesSelectBuilder namespace =
     Where Wt_namespace (VStr namespace)
       \<lparr>sb_DistinctOn = [], sb_Columns = [Wt_id, Wt_created_at, Wt_uid, Wt_name, Wt_is_archived],
        sb_From = Wt, sb_Joins = [], sb_Where = [], sb_GroupBy = [], sb_OrderBy = [], sb_Limit = None\<rparr>"

definition workflowTemplatesVersionSelectBuilder :: "string \<Rightarrow> SelectBuilder" where
  "workflowTemplatesVersionSelectBuilder namespace =
     Where Wt_namespace (VStr namespace)
       (Join Wt
         \<lparr>sb_DistinctOn = [], sb_Columns = [Wtv_id, Wtv_version, Wtv_is_latest, Wtv_manifest, Wtv_created_at],
          sb_From = Wtv, sb_Joins = [], sb_Where = [], sb_GroupBy = [], sb_OrderBy = [], sb_Limit = None\<rparr>)"

text \<open>\<^verbatim>\<open>getArgoWorkflowTemplate\<close>: version \<^verbatim>\<open>"latest"\<close> selects on the latest marker.\<close>

definition getArgoWorkflowTemplate ::
  "faults \<Rightarrow> string \<Rightarrow> string \<Rightarrow> string \<Rightarrow> world \<Rightarrow> (error + argo_wft) \<times> world" where
  "getArgoWorkflowTemplate flt namespace workflowTemplateUid version w =
     (let labelSelect =
            (label_WorkflowTemplateUid, workflowTemplateUid)
              # (if version = ''latest'' then [(label_VersionLatest, ''true'')]
                 else [(label_Version, version)])
      in case argo_List (f_ArgoGetList flt) namespace labelSelect w of
           (Inl e, w1) \<Rightarrow> (Inl e, w1)
         | (Inr items, w1) \<Rightarrow>
             (if length items = 0 then (Inl (ErrorString ''not found''), w1)
              else if length items > 1 then (Inl (ErrorString ''not unique result''), w1)
              else (case items of
                      t # _ \<Rightarrow> (Inr t, w1)
                    | [] \<Rightarrow> (Inl (ErrorString ''not found''), w1))))"

text \<open>
  \<^verbatim>\<open>getWorkflowTemplate\<close>. Of the errors of \<^verbatim>\<open>c.DB.Get\<close> only \<^verbatim>\<open>sql.ErrNoRows\<close> is
  looked at: after any other error the function goes on with the destination as the
  scan left it, and the error is overwritten by the outcome of the cluster lookup.
  \<^verbatim>\<open>Inr None\<close> is the return of a nil template with a nil error.
\<close>

definition label_or_empty :: "labels \<Rightarrow> string \<Rightarrow> string" where
  "label_or_empty ls k = (case map_of ls k of None \<Rightarrow> [] | Some x \<Rightarrow> x)"

definition getWorkflowTemplate ::
  "faults \<Rightarrow> string \<Rightarrow> string \<Rightarrow> int64 \<Rightarrow> world \<Rightarrow> (error + WorkflowTemplate option) \<times> world" where
  "getWorkflowTemplate flt namespace uid version w =
     (let dest = WorkflowTemplate_zero\<lparr>WorkflowExecutionStatisticReport := Some []\<rparr>;
          sb0 = Where Wt_uid (VStr uid) (Join Wtv (Column Wtv_manifest (workflowTemplatesSelectBuilder namespace)));
          sb = (if version = 0 then Where Wtv_is_latest (VBool True) sb0
                else Where Wtv_version (VInt version) sb0)
      in case ToSql sb of
           Inl e \<Rightarrow> (Inl e, w)
         | Inr query \<Rightarrow>
             (let got = DB_Get (f_Get flt) scan_WorkflowTemplate dest query w
              in if got = Inl ErrNoRows then (Inr None, w)
                 else
                  (let workflowTemplate = (case got of Inr x \<Rightarrow> x | Inl e \<Rightarrow> dest);
                       versionAsString = (if version \<noteq> 0 then Sprintf_v version else ''latest'')
                   in case getArgoWorkflowTemplate flt namespace uid versionAsString w of
                        (Inl e, w1) \<Rightarrow> (Inl e, w1)
                      | (Inr argoWft, w1) \<Rightarrow>
                          (case ParseInt (label_or_empty (wft_Labels argoWft) label_Version) of
                             Inl e \<Rightarrow> (Inl e, w1)
                           | Inr templateVersion \<Rightarrow>
                               (Inr (Some (workflowTemplate\<lparr>ArgoWorkflowTemplate := Some argoWft,
                                                            Version := templateVersion\<rparr>)), w1)))))"

text \<open>
  \<^verbatim>\<open>getWorkflowTemplateByName\<close>. The statement names \<^verbatim>\<open>wtv.manifest\<close> and
  \<^verbatim>\<open>wtv.version\<close>, and no join is added to the builder.
\<close>

definition getWorkflowTemplateByName ::
  "faults \<Rightarrow> string \<Rightarrow> string \<Rightarrow> int64 \<Rightarrow> world \<Rightarrow> error + WorkflowTemplate option" where
  "getWorkflowTemplateByName flt namespace name version w =
     (let sb0 = Limit 1 (OrderBy Wtv_version True (Column Wtv_manifest
                  (Where Wt_name (VStr name) (workflowTemplatesSelectBuilder namespace))));
          sb = (if version \<noteq> 0 then Where Wtv_version (VInt version) sb0 else sb0)
      in case ToSql sb of
           Inl e \<Rightarrow> Inl e
         | Inr query \<Rightarrow>
             (let got = DB_Get (f_Get flt) scan_WorkflowTemplate WorkflowTemplate_zero query w
              in if got = Inl ErrNoRows then Inr None
                 else (case got of
                         Inl e \<Rightarrow> Inl e
                       | Inr x \<Rightarrow> Inr (Some x))))"

text \<open>\<^verbatim>\<open>GetWorkflowTemplate\<close>: if version is 0, it returns the latest.\<close>

definition GetWorkflowTemplate ::
  "faults \<Rightarrow> string \<Rightarrow> string \<Rightarrow> int64 \<Rightarrow> world \<Rightarrow> (error + WorkflowTemplate) \<times> world" where
  "GetWorkflowTemplate flt namespace uid version w =
     (case getWorkflowTemplate flt namespace uid version w of
        (Inl e, w1) \<Rightarrow> (Inl (UserError Unknown ''Unknown error.''), w1)
      | (Inr None, w1) \<Rightarrow> (Inl (UserError NotFound ''Workflow template not found.''), w1)
      | (Inr (Some workflowTemplate), w1) \<Rightarrow> (Inr workflowTemplate, w1))"

definition GetWorkflowTemplateByName ::
  "faults \<Rightarrow> string \<Rightarrow> string \<Rightarrow> int64 \<Rightarrow> world \<Rightarrow> error + WorkflowTemplate" where
  "GetWorkflowTemplateByName flt namespace name version w =
     (case getWorkflowTemplateByName flt namespace name version w of
        Inl e \<Rightarrow> Inl (UserError Unknown ''Unknown error.'')
      | Inr None \<Rightarrow> Inl (UserError NotFound ''Workflow template not found.'')
      | Inr (Some workflowTemplate) \<Rightarrow> Inr workflowTemplate)"

text \<open>\<^verbatim>\<open>listArgoWorkflowTemplates\<close>: every object of the identity, whatever its version.\<close>

definition listArgoWorkflowTemplates ::
  "faults \<Rightarrow> string \<Rightarrow> string \<Rightarrow> world \<Rightarrow> (error + argo_wft list) \<times> world" where
  "listArgoWorkflowTemplates flt namespace workflowTemplateUid w =
     argo_List (f_ArgoList flt) namespace [(label_WorkflowTemplateUid, workflowTemplateUid)] w"

text \<open>
  \<^verbatim>\<open>listDbWorkflowTemplateVersions\<close>. The builder returned by \<^verbatim>\<open>sb.Where\<close> is dropped,
  so the statement that runs has no condition on \<^verbatim>\<open>wt.uid\<close>.
\<close>

definition listDbWorkflowTemplateVersions ::
  "faults \<Rightarrow> string \<Rightarrow> string \<Rightarrow> world \<Rightarrow> error + WorkflowTemplateVersion list" where
  "listDbWorkflowTemplateVersions flt namespace workflowTemplateUid w =
     (let sb = workflowTemplatesVersionSelectBuilder namespace;
          unused = Where Wt_uid (VStr workflowTemplateUid) sb
      in case ToSql sb of
           Inl e \<Rightarrow> Inl e
         | Inr query \<Rightarrow>
             DB_Select (f_SelectVersions flt) scan_WorkflowTemplateVersion WorkflowTemplateVersion_zero query w)"

text \<open>
  The loop of \<^verbatim>\<open>listWorkflowTemplateVersions\<close> over the cluster objects. A version
  that \<^verbatim>\<open>mapByVersion\<close> does not hold reads as a nil pointer, and reading its manifest
  panics.
\<close>

fun versions_loop ::
  "WorkflowTemplate \<Rightarrow> (int64 \<rightharpoonup> WorkflowTemplateVersion) \<Rightarrow> argo_wft list \<Rightarrow> WorkflowTemplate list
     \<Rightarrow> (error + WorkflowTemplate list) go" where
  "versions_loop template mapByVersion [] acc = Returns (Inr acc)"
| "versions_loop template mapByVersion (argoTemplate # rest) acc =
     (case ParseInt (label_or_empty (wft_Labels argoTemplate) label_Version) of
        Inl versionErr \<Rightarrow> Returns (Inl versionErr)
      | Inr version \<Rightarrow>
          (let isLatest = (map_of (wft_Labels argoTemplate) label_VersionLatest \<noteq> None)
           in case mapByVersion version of
                None \<Rightarrow> Panics ''invalid memory address or nil pointer dereference''
              | Some dbVersion \<Rightarrow>
                  (let labels = FilterByPrefix label_TagPrefix (wft_Labels argoTemplate);
                       newItem = WorkflowTemplate_zero
                         \<lparr>ID := ID template, CreatedAt := wft_CreationTimestamp argoTemplate,
                          UID := UID template, Name := Name template, Manifest := wtv_Manifest dbVersion,
                          Version := version, IsLatest := isLatest, IsArchived := IsArchived template,
                          Labels := labels\<rparr>
                   in versions_loop template mapByVersion rest (acc @ [newItem]))))"

definition listWorkflowTemplateVersions ::
  "faults \<Rightarrow> string \<Rightarrow> string \<Rightarrow> world \<Rightarrow> (error + WorkflowTemplate list) go \<times> world" where
  "listWorkflowTemplateVersions flt namespace uid w =
     (case GetWorkflowTemplate flt namespace uid 0 w of
        (Inl e, w1) \<Rightarrow> (Returns (Inl e), w1)
      | (Inr template, w1) \<Rightarrow>
          (case listArgoWorkflowTemplates flt namespace uid w1 of
             (Inl e, w2) \<Rightarrow> (Returns (Inl e), w2)
           | (Inr argoTemplates, w2) \<Rightarrow>
               (case listDbWorkflowTemplateVersions flt namespace uid w2 of
                  Inl e \<Rightarrow> (Returns (Inl e), w2)
                | Inr dbVersions \<Rightarrow>
                    (let mapByVersion =
                           fold (\<lambda>dbVersion m. m(wtv_Version dbVersion \<mapsto> dbVersion)) dbVersions Map.empty
                     in (versions_loop template mapByVersion argoTemplates [], w2)))))"

definition ListWorkflowTemplateVersions ::
  "faults \<Rightarrow> string \<Rightarrow> string \<Rightarrow> world \<Rightarrow> (error + WorkflowTemplate list) go \<times> world" where
  "ListWorkflowTemplateVersions flt namespace uid w =
     (case listWorkflowTemplateVersions flt namespace uid w of
        (Panics p, w1) \<Rightarrow> (Panics p, w1)
      | (Returns (Inl e), w1) \<Rightarrow>
          (Returns (Inl (UserError NotFound ''Workflow template versions not found.'')), w1)
      | (Returns (Inr workflowTemplateVersions), w1) \<Rightarrow> (Returns (Inr workflowTemplateVersions), w1))"

text \<open>\<^verbatim>\<open>listWorkflowTemplates\<close>: one row for each template of the namespace that is not archived.\<close>

definition listWorkflowTemplates :: "faults \<Rightarrow> string \<Rightarrow> world \<Rightarrow> error + WorkflowTemplate list" where
  "listWorkflowTemplates flt namespace w =
     (case ToSql
             (OrderBy Wt_id True
               (Where Wt_is_archived (VBool False)
                 (GroupBy [Wt_id, Wt_created_at, Wt_uid, Wt_name, Wt_is_archived]
                   (Join Wtv
                     (DistinctOn [Wt_id]
                       (Column Count_wtv (workflowTemplatesSelectBuilder namespace))))))) of
        Inl e \<Rightarrow> Inl e
      | Inr query \<Rightarrow> DB_Select (f_Select flt) scan_WorkflowTemplate WorkflowTemplate_zero query w)"

text \<open>\<^verbatim>\<open>archiveWorkflowTemplate\<close>: the result of \<^verbatim>\<open>Exec\<close> is dropped, only its error is read.\<close>

definition archiveWorkflowTemplate ::
  "faults \<Rightarrow> string \<Rightarrow> string \<Rightarrow> world \<Rightarrow> (error + bool) \<times> world" where
  "archiveWorkflowTemplate flt namespace uid w =
     (case exec_archive flt namespace uid w of
        (Some e, w1) \<Rightarrow> (Inl e, w1)
      | (None, w1) \<Rightarrow> (Inr True, w1))"

definition CreateWorkflowTemplate ::
  "collaborators \<Rightarrow> faults \<Rightarrow> string \<Rightarrow> WorkflowTemplate \<Rightarrow> world \<Rightarrow> (error + WorkflowTemplate) \<times> world" where
  "CreateWorkflowTemplate col flt namespace workflowTemplate w =
     (case WrapSpec col workflowTemplate of
        Inl e \<Rightarrow> (Inl (UserError InvalidArgument (Error e)), w)
      | Inr finalBytes \<Rightarrow>
          (case ValidateWorkflowExecution col namespace finalBytes of
             Some e \<Rightarrow> (Inl (UserError InvalidArgument (Error e)), w)
           | None \<Rightarrow>
               (case createWorkflowTemplate col flt namespace workflowTemplate w of
                  (Inl e, w1) \<Rightarrow> (Inl (NewUserErrorWrap col e ''Workflow template''), w1)
                | (Inr created, w1) \<Rightarrow> (Inr created, w1))))"

text \<open>
  \<^verbatim>\<open>CreateWorkflowTemplateVersion\<close>. The template row is read from the database itself,
  the update and the insert run in the transaction, and the transaction is committed
  before the cluster store is touched.
\<close>

definition CreateWorkflowTemplateVersion ::
  "collaborators \<Rightarrow> faults \<Rightarrow> string \<Rightarrow> WorkflowTemplate \<Rightarrow> world \<Rightarrow> (error + WorkflowTemplate) \<times> world" where
  "CreateWorkflowTemplateVersion col flt namespace workflowTemplate w =
     (case WrapSpec col workflowTemplate of
        Inl e \<Rightarrow> (Inl (UserError InvalidArgument (Error e)), w)
      | Inr finalBytes \<Rightarrow>
     (case ValidateWorkflowExecution col namespace finalBytes of
        Some e \<Rightarrow> (Inl (UserError InvalidArgument (Error e)), w)
      | None \<Rightarrow>
     (let versionUnix = Now_Unix col
      in case f_Begin flt of
        Some e \<Rightarrow> (Inl e, w)
      | None \<Rightarrow>
     (let tx = committed w
      in case ToSql (Where Wt_uid (VStr (UID workflowTemplate)) (workflowTemplatesSelectBuilder namespace)) of
        Inl e \<Rightarrow> (Inl e, w)
      | Inr query \<Rightarrow>
     (case DB_Get (f_Get flt) scan_WorkflowTemplate WorkflowTemplate_zero query w of
        Inl e \<Rightarrow> (Inl e, w)
      | Inr workflowTemplateDb \<Rightarrow>
     (case update_versions_not_latest flt (ID workflowTemplateDb) tx of
        Inl e \<Rightarrow> (Inl e, w)
      | Inr tx1 \<Rightarrow>
     (case insert_version flt (Now_Unix col) (ID workflowTemplateDb) versionUnix True
             (Manifest workflowTemplate) tx1 w of
        (Inl e, w1) \<Rightarrow> (Inl e, w1)
      | (Inr tx2, w1) \<Rightarrow>
     (case commit flt tx2 w1 of
        (Some e, w2) \<Rightarrow> (Inl e, w2)
      | (None, w2) \<Rightarrow>
     (case getArgoWorkflowTemplate flt namespace (UID workflowTemplate) ''latest'' w2 of
        (Inl e, w3) \<Rightarrow> (Inl e, w3)
      | (Inr latest, w3) \<Rightarrow>
     (case argo_Update flt namespace
             (latest\<lparr>wft_Labels := AList.delete label_VersionLatest (wft_Labels latest)\<rparr>) w3 of
        (Inl e, w4) \<Rightarrow> (Inl e, w4)
      | (Inr updated, w4) \<Rightarrow>
     (case createArgoWorkflowTemplate col workflowTemplate versionUnix of
        Inl e \<Rightarrow> (Inl e, w4)
      | Inr updatedTemplate0 \<Rightarrow>
     (let updatedTemplate =
            updatedTemplate0\<lparr>wft_TypeMeta := [], wft_ResourceVersion := [], wft_SelfLink := []\<rparr>
      in case GetParametersKeyString col workflowTemplate of
        Inl e \<Rightarrow> (Inl e, w4)
      | Inr parametersMap \<Rightarrow>
     (case argo_Create flt (Now_Unix col) namespace
             (Some (updatedTemplate\<lparr>wft_Annotations :=
                      fold (\<lambda>(key, val) m. AList.update key val m) parametersMap
                        (wft_Annotations updatedTemplate)\<rparr>)) w4 of
        (Inl e, w5) \<Rightarrow> (Inl e, w5)
      | (Inr created, w5) \<Rightarrow> (Inr workflowTemplate, w5))))))))))))))"

text \<open>\<^verbatim>\<open>GetWorkflowTemplateLabels\<close>: if version is 0, latest is used.\<close>

definition GetWorkflowTemplateLabels ::
  "faults \<Rightarrow> string \<Rightarrow> string \<Rightarrow> string \<Rightarrow> int64 \<Rightarrow> world \<Rightarrow> (error + labels) \<times> world" where
  "GetWorkflowTemplateLabels flt namespace name pre version w =
     (let versionAsString = (if version \<noteq> 0 then Sprintf_v version else ''latest'')
      in case getArgoWorkflowTemplate flt namespace name versionAsString w of
           (Inl e, w1) \<Rightarrow> (Inl (UserError NotFound ''Workflow Template not found.''), w1)
         | (Inr wft, w1) \<Rightarrow> (Inr (RemovePrefix pre (FilterByPrefix pre (wft_Labels wft))), w1))"

text \<open>The loop of \<^verbatim>\<open>ListWorkflowTemplates\<close> that attaches the tag labels; a failure skips the entry.\<close>

fun labels_loop ::
  "faults \<Rightarrow> string \<Rightarrow> WorkflowTemplate list \<Rightarrow> world \<Rightarrow> WorkflowTemplate list \<times> world" where
  "labels_loop flt namespace [] w = ([], w)"
| "labels_loop flt namespace (workflowTemplate # rest) w =
     (case GetWorkflowTemplateLabels flt namespace (UID workflowTemplate) label_TagPrefix
             (Version workflowTemplate) w of
        (Inl e, w1) \<Rightarrow>
          (case labels_loop flt namespace rest w1 of
             (done, w2) \<Rightarrow> (workflowTemplate # done, w2))
      | (Inr labels, w1) \<Rightarrow>
          (case labels_loop flt namespace rest w1 of
             (done, w2) \<Rightarrow> (workflowTemplate\<lparr>Labels := labels\<rparr> # done, w2)))"

text \<open>
  \<^verbatim>\<open>ListWorkflowTemplates\<close>. \<^verbatim>\<open>GetWorkflowExecutionStatisticsForTemplates\<close> fills the
  statistics report of each template it is given.
\<close>

definition ListWorkflowTemplates ::
  "collaborators \<Rightarrow> faults \<Rightarrow> string \<Rightarrow> world \<Rightarrow> (error + WorkflowTemplate list) \<times> world" where
  "ListWorkflowTemplates col flt namespace w =
     (case listWorkflowTemplates flt namespace w of
        Inl e \<Rightarrow> (Inl (UserError NotFound ''Workflow templates not found.''), w)
      | Inr workflowTemplateVersions \<Rightarrow>
          (case GetWorkflowExecutionStatistics col workflowTemplateVersions of
             Inl e \<Rightarrow>
               (Inl (UserError NotFound ''Unable to get Workflow Execution Statistic for Templates.''), w)
           | Inr report \<Rightarrow>
               (case labels_loop flt namespace
                       (map (\<lambda>t. t\<lparr>WorkflowExecutionStatisticReport := report t\<rparr>) workflowTemplateVersions) w of
                  (labelled, w1) \<Rightarrow> (Inr labelled, w1))))"

text \<open>\<^verbatim>\<open>ArchiveWorkflowTemplate\<close>.\<close>

definition ArchiveWorkflowTemplate ::
  "faults \<Rightarrow> string \<Rightarrow> string \<Rightarrow> world \<Rightarrow> (error + bool) \<times> world" where
  "ArchiveWorkflowTemplate flt namespace uid w =
     (case getWorkflowTemplate flt namespace uid 0 w of
        (Inl e, w1) \<Rightarrow> (Inl (UserError Unknown ''Unable to archive workflow template.''), w1)
      | (Inr None, w1) \<Rightarrow> (Inl (UserError NotFound ''Workflow template not found.''), w1)
      | (Inr (Some workflowTemplate), w1) \<Rightarrow>
          (case archiveWorkflowTemplate flt namespace uid w1 of
             (Inl e, w2) \<Rightarrow> (Inl (UserError Unknown ''Unable to archive workflow template.''), w2)
           | (Inr archived, w2) \<Rightarrow>
               (if \<not> archived then (Inl (UserError Unknown ''Unable to archive workflow template.''), w2)
                else (Inr archived, w2))))"

subsection \<open>Reading the request history\<close>

fun is_ArgoDelete :: "request \<times> error option \<Rightarrow> bool" where
  "is_ArgoDelete (ArgoDelete ns name, outcome) = True"
| "is_ArgoDelete _ = False"

subsection \<open>A concrete run\<close>

text \<open>
  Collaborators that accept every manifest, a clock stopped at 100, an empty world, and
  the world after template \<^verbatim>\<open>t1\<close> has been created in namespace \<^verbatim>\<open>ns\<close>.
\<close>

definition example_collaborators :: collaborators where
  "example_collaborators =
     \<lparr>GenerateUID = (\<lambda>t. Inr (Name t, t\<lparr>UID := Name t\<rparr>)),
      WrapSpec = (\<lambda>t. Inr (Manifest t)),
      ValidateWorkflowExecution = (\<lambda>namespace bytes. None),
      Unmarshal = (\<lambda>bytes. Inr \<lparr>wft_Name = [], wft_Namespace = [], wft_Labels = [], wft_Annotations = [],
                                wft_CreationTimestamp = 0, wft_TypeMeta = ''WorkflowTemplate'',
                                wft_ResourceVersion = [], wft_SelfLink = [], wft_Spec = bytes\<rparr>),
      GetParametersKeyString = (\<lambda>t. Inr []),
      NewUserErrorWrap = (\<lambda>e entity. UserError Unknown ''Unknown error.''),
      GetWorkflowExecutionStatistics = (\<lambda>ts. Inr (\<lambda>t. None)),
      Now_Unix = 100\<rparr>"

definition empty_world :: world where
  "empty_world =
     \<lparr>committed = \<lparr>templates = [], versions = []\<rparr>, next_template_id = 1, next_version_id = 1,
      objects = [], requests = []\<rparr>"

definition template_t1 :: WorkflowTemplate where
  "template_t1 = WorkflowTemplate_zero\<lparr>Name := ''t1'', Manifest := ''M1''\<rparr>"

definition object_t1_v100 :: argo_wft where
  "object_t1_v100 =
     \<lparr>wft_Name = ''t1-v100'', wft_Namespace = [],
      wft_Labels = [(''template-name'', ''t1''), (''template-identity'', ''t1''), (''version'', ''100''),
                    (''version-latest'', ''true'')],
      wft_Annotations = [], wft_CreationTimestamp = 0, wft_TypeMeta = ''WorkflowTemplate'',
      wft_ResourceVersion = [], wft_SelfLink = [], wft_Spec = ''M1''\<rparr>"

definition world_t1 :: world where
  "world_t1 =
     \<lparr>committed =
        \<lparr>templates = [\<lparr>t_id = 1, t_uid = ''t1'', t_name = ''t1'', t_namespace = ''ns'',
                        t_is_archived = False, t_created_at = 100\<rparr>],
         versions = [\<lparr>v_id = 1, v_workflow_template_id = 1, v_version = 100, v_is_latest = True,
                       v_manifest = ''M1'', v_created_at = 100\<rparr>]\<rparr>,
      next_template_id = 2, next_version_id = 2,
      objects = [object_t1_v100\<lparr>wft_Namespace := ''ns'', wft_CreationTimestamp := 100\<rparr>],
      requests = [(ArgoCreate ''ns'' (Some object_t1_v100), None)]\<rparr>"

text \<open>The statement of \<^verbatim>\<open>listWorkflowTemplates\<close>, named for the proofs.\<close>

definition list_query :: "string \<Rightarrow> SelectBuilder" where
  "list_query namespace =
     OrderBy Wt_id True
               (Where Wt_is_archived (VBool False)
                 (GroupBy [Wt_id, Wt_created_at, Wt_uid, Wt_name, Wt_is_archived]
                   (Join Wtv
                     (DistinctOn [Wt_id]
                       (Column Count_wtv (workflowTemplatesSelectBuilder namespace))))))"

text \<open>A world with an archived template \<^verbatim>\<open>t1\<close> and a template \<^verbatim>\<open>t2\<close> that is not archived.\<close>

definition world_archived :: world where
  "world_archived =
     \<lparr>committed =
        \<lparr>templates = [\<lparr>t_id = 1, t_uid = ''t1'', t_name = ''t1'', t_namespace = ''ns'',
                        t_is_archived = True, t_created_at = 100\<rparr>,
                      \<lparr>t_id = 2, t_uid = ''t2'', t_name = ''t2'', t_namespace = ''ns'',
                        t_is_archived = False, t_created_at = 100\<rparr>],
         versions = [\<lparr>v_id = 1, v_workflow_template_id = 1, v_version = 100, v_is_latest = True,
                       v_manifest = ''M1'', v_created_at = 100\<rparr>,
                     \<lparr>v_id = 2, v_workflow_template_id = 2, v_version = 100, v_is_latest = True,
                       v_manifest = ''M2'', v_created_at = 100\<rparr>]\<rparr>,
      next_template_id = 3, next_version_id = 3,
      objects = [object_t1_v100\<lparr>wft_Namespace := ''ns'', wft_CreationTimestamp := 100\<rparr>],
      requests = []\<rparr>"

text \<open>
  The template rows with their version rows, and those a lookup by identity and version
  selects: version 0 asks for the row marked latest.
\<close>

definition joined :: "tables \<Rightarrow> (template_row \<times> version_row) list" where
  "joined db =
     concat (map (\<lambda>t. map (\<lambda>v. (t, v)) (filter (\<lambda>v. v_workflow_template_id v = t_id t) (versions db)))
               (templates db))"

definition version_rows_for :: "string \<Rightarrow> string \<Rightarrow> int64 \<Rightarrow> tables \<Rightarrow> (template_row \<times> version_row) list" where
  "version_rows_for namespace uid version db =
     filter (\<lambda>(t, v). t_namespace t = namespace \<and> t_uid t = uid
                      \<and> (if version = 0 then v_is_latest v else v_version v = version))
       (joined db)"

text \<open>The statement and the selector of \<^verbatim>\<open>getWorkflowTemplate\<close>, named for the proofs.\<close>

definition get_query :: "string \<Rightarrow> string \<Rightarrow> int64 \<Rightarrow> SelectBuilder" where
  "get_query namespace uid version =
     (if version = 0
      then Where Wtv_is_latest (VBool True)
             (Where Wt_uid (VStr uid) (Join Wtv (Column Wtv_manifest (workflowTemplatesSelectBuilder namespace))))
      else Where Wtv_version (VInt version)
             (Where Wt_uid (VStr uid) (Join Wtv (Column Wtv_manifest (workflowTemplatesSelectBuilder namespace)))))"

definition get_selector :: "string \<Rightarrow> int64 \<Rightarrow> labels" where
  "get_selector uid version =
     (label_WorkflowTemplateUid, uid)
       # (if version = 0 then [(label_VersionLatest, ''true'')] else [(label_Version, Sprintf_v version)])"

text \<open>What \<^verbatim>\<open>getWorkflowTemplate\<close> scans from a template row and its version row.\<close>

definition scanned :: "template_row \<Rightarrow> version_row \<Rightarrow> WorkflowTemplate" where
  "scanned t v =
     WorkflowTemplate_zero\<lparr>ID := t_id t, CreatedAt := t_created_at t, UID := t_uid t, Name := t_name t,
                            IsArchived := t_is_archived t, Manifest := v_manifest v,
                            WorkflowExecutionStatisticReport := Some []\<rparr>"

fun error_code :: "error \<Rightarrow> code option" where
  "error_code (UserError c m) = Some c"
| "error_code _ = None"

text \<open>The world of \<^verbatim>\<open>t1\<close> with one more cluster object of that identity, for a version no row has.\<close>

definition world_orphan :: world where
  "world_orphan =
     world_t1\<lparr>objects := objects world_t1 @
        [\<lparr>wft_Name = ''t1-v50'', wft_Namespace = ''ns'',
          wft_Labels = [(''template-name'', ''t1''), (''template-identity'', ''t1''), (''version'', ''50'')],
          wft_Annotations = [], wft_CreationTimestamp = 50, wft_TypeMeta = ''WorkflowTemplate'',
          wft_ResourceVersion = [], wft_SelfLink = [], wft_Spec = ''M0''\<rparr>]\<rparr>"

text \<open>
  The statement with which \<^verbatim>\<open>CreateWorkflowTemplateVersion\<close> looks the template up, the
  rows it selects and what is scanned from a row, named for the proofs.
\<close>

definition template_query :: "string \<Rightarrow> string \<Rightarrow> SelectBuilder" where
  "template_query namespace uid = Where Wt_uid (VStr uid) (workflowTemplatesSelectBuilder namespace)"

definition template_rows_for :: "string \<Rightarrow> string \<Rightarrow> tables \<Rightarrow> template_row list" where
  "template_rows_for namespace uid db =
     filter (\<lambda>t. t_namespace t = namespace \<and> t_uid t = uid) (templates db)"

definition scanned_template :: "template_row \<Rightarrow> WorkflowTemplate" where
  "scanned_template t =
     WorkflowTemplate_zero\<lparr>ID := t_id t, CreatedAt := t_created_at t, UID := t_uid t, Name := t_name t,
                            IsArchived := t_is_archived t\<rparr>"

text \<open>
  Whether the lookup of \<^verbatim>\<open>getWorkflowTemplate\<close> ends in \<^verbatim>\<open>sql.ErrNoRows\<close>, and the
  template it goes on with otherwise: the scanned first row, or the untouched destination
  after an error of the database that is not looked at.
\<close>

definition lookup_no_rows :: "faults \<Rightarrow> string \<Rightarrow> string \<Rightarrow> int64 \<Rightarrow> world \<Rightarrow> bool" where
  "lookup_no_rows flt namespace uid version w =
     (case f_Get flt of
        Some e \<Rightarrow> e = ErrNoRows
      | None \<Rightarrow> version_rows_for namespace uid version (committed w) = [])"

definition looked_up :: "faults \<Rightarrow> string \<Rightarrow> string \<Rightarrow> int64 \<Rightarrow> world \<Rightarrow> WorkflowTemplate" where
  "looked_up flt namespace uid version w =
     (case f_Get flt of
        Some e \<Rightarrow> WorkflowTemplate_zero\<lparr>WorkflowExecutionStatisticReport := Some []\<rparr>
      | None \<Rightarrow>
          (case version_rows_for namespace uid version (committed w) of
             [] \<Rightarrow> WorkflowTemplate_zero\<lparr>WorkflowExecutionStatisticReport := Some []\<rparr>
           | (t, v) # _ \<Rightarrow> scanned t v))"

text \<open>The cluster objects the selector of a lookup matches.\<close>

definition selected :: "string \<Rightarrow> string \<Rightarrow> int64 \<Rightarrow> world \<Rightarrow> argo_wft list" where
  "selected namespace uid version w = filter (matches namespace (get_selector uid version)) (objects w)"

text \<open>What a lookup returns once the database and the cluster store have answered.\<close>

definition lookup_result ::
  "faults \<Rightarrow> string \<Rightarrow> string \<Rightarrow> int64 \<Rightarrow> world \<Rightarrow> error + WorkflowTemplate option" where
  "lookup_result flt namespace uid version w =
     (case f_ArgoGetList flt of
        Some e \<Rightarrow> Inl e
      | None \<Rightarrow>
          (case selected namespace uid version w of
             [] \<Rightarrow> Inl (ErrorString ''not found'')
           | [a] \<Rightarrow>
               (case ParseInt (label_or_empty (wft_Labels a) label_Version) of
                  Inl e \<Rightarrow> Inl e
                | Inr templateVersion \<Rightarrow>
                    Inr (Some ((looked_up flt namespace uid version w)
                                 \<lparr>ArgoWorkflowTemplate := Some a, Version := templateVersion\<rparr>)))
           | _ \<Rightarrow> Inl (ErrorString ''not unique result'')))"



text \<open>The statement of \<^verbatim>\<open>getWorkflowTemplateByName\<close>, named for the proofs.\<close>

definition by_name_query :: "string \<Rightarrow> string \<Rightarrow> int64 \<Rightarrow> SelectBuilder" where
  "by_name_query namespace name version =
     (if version \<noteq> 0
      then Where Wtv_version (VInt version)
             (Limit 1 (OrderBy Wtv_version True (Column Wtv_manifest
                (Where Wt_name (VStr name) (workflowTemplatesSelectBuilder namespace)))))
      else Limit 1 (OrderBy Wtv_version True (Column Wtv_manifest
             (Where Wt_name (VStr name) (workflowTemplatesSelectBuilder namespace)))))"


text \<open>The template rows after the archive update for an identity and a namespace.\<close>

definition archived_rows :: "string \<Rightarrow> string \<Rightarrow> template_row list \<Rightarrow> template_row list" where
  "archived_rows namespace uid ts =
     map (\<lambda>t. if t_uid t = uid \<and> t_namespace t = namespace then t\<lparr>t_is_archived := True\<rparr> else t) ts"

text \<open>
  The tables after the two statements of an append: every version row of the template
  loses the latest marker, and the new row, marked latest, is added.
\<close>

definition appended :: "nat \<Rightarrow> int64 \<Rightarrow> string \<Rightarrow> nat \<Rightarrow> tables \<Rightarrow> tables" where
  "appended template_id version manifest new_id db =
     db\<lparr>versions :=
          map (\<lambda>v. if v_workflow_template_id v = template_id then v\<lparr>v_is_latest := False\<rparr> else v) (versions db)
            @ [\<lparr>v_id = new_id, v_workflow_template_id = template_id, v_version = version,
                 v_is_latest = True, v_manifest = manifest, v_created_at = version\<rparr>]\<rparr>"

text \<open>The version rows of a template that are marked latest.\<close>

definition latest_rows :: "nat \<Rightarrow> tables \<Rightarrow> version_row list" where
  "latest_rows template_id db =
     filter (\<lambda>v. v_workflow_template_id v = template_id \<and> v_is_latest v) (versions db)"



text \<open>
  The worlds the operations can produce from empty tables. The reading operations only
  add to the request history, and the cluster store can be changed from outside, so the
  objects and the history are left free.
\<close>

inductive reachable :: "world \<Rightarrow> bool" where
  initial: "templates (committed w) = [] \<Longrightarrow> versions (committed w) = [] \<Longrightarrow> reachable w"
| create: "reachable w \<Longrightarrow> CreateWorkflowTemplate col flt namespace wt w = (r, w') \<Longrightarrow> reachable w'"
| append: "reachable w \<Longrightarrow> CreateWorkflowTemplateVersion col flt namespace wt w = (r, w') \<Longrightarrow> reachable w'"
| archive: "reachable w \<Longrightarrow> ArchiveWorkflowTemplate flt namespace uid w = (b, w') \<Longrightarrow> reachable w'"
| cluster: "reachable w \<Longrightarrow> reachable (w\<lparr>objects := obs, requests := rqs\<rparr>)"

text \<open>
  The invariant of the tables: ids come from the sequences, and every template row has
  exactly one version row marked latest.
\<close>

definition tables_ok :: "world \<Rightarrow> bool" where
  "tables_ok w =
     ((\<forall>t \<in> set (templates (committed w)).
          t_id t < next_template_id w \<and> length (latest_rows (t_id t) (committed w)) = 1)
      \<and> (\<forall>v \<in> set (versions (committed w)).
            v_id v < next_version_id w \<and> v_workflow_template_id v < next_template_id w))"

text \<open>A clock that has moved on to 200, for a second version of \<^verbatim>\<open>t1\<close>.\<close>

definition later_collaborators :: collaborators where
  "later_collaborators = example_collaborators\<lparr>Now_Unix := 200\<rparr>"

section \<open>Properties\<close>

subsection \<open>Create\<close>

lemmas create_defs = createWorkflowTemplate_def insert_template_def insert_version_def argo_Create_def
    commit_def argo_Delete_def record_request_def issued_def Let_def

lemma map_of_MergeLabelsPrefix_other:
  assumes "take (length pre) k \<noteq> pre"
  shows "map_of (MergeLabelsPrefix ls tags pre) k = map_of ls k"
  unfolding MergeLabelsPrefix_def using assms
proof (induction tags arbitrary: ls)
  case Nil
  then show ?case by simp
next
  case (Cons kv tags)
  obtain a b where kv: "kv = (a, b)" by (cases kv)
  from Cons.prems have "k \<noteq> pre @ a" by auto
  with Cons.IH [OF Cons.prems, of "AList.update (pre @ a) b ls"] kv show ?case
    by (simp add: update_conv')
qed

lemma createArgoWorkflowTemplate_labels:
  assumes "createArgoWorkflowTemplate col t v = Inr obj"
  shows "wft_Name obj = ToLower (ReplaceAllString False (Name t)) @ ''-v'' @ Sprintf_v v"
    and "map_of (wft_Labels obj) label_Version = Some (Sprintf_v v)"
    and "map_of (wft_Labels obj) label_WorkflowTemplateUid = Some (UID t)"
    and "map_of (wft_Labels obj) label_VersionLatest = Some ''true''"
  using assms
  by (auto simp: createArgoWorkflowTemplate_def Let_def map_of_MergeLabelsPrefix_other
        label_Version_def label_TagPrefix_def label_WorkflowTemplate_def label_WorkflowTemplateUid_def
        label_VersionLatest_def
      split: sum.splits)

lemma digit_char_props:
  assumes "d < 10"
  shows "is_digit (digit_char d)" and "digit_val (digit_char d) = d"
    and "digit_char d \<noteq> CHR ''-''" and "digit_char d \<noteq> CHR ''+''"
proof -
  from assms have "(of_char (digit_char d) :: nat) = 48 + d"
    by (simp add: digit_char_def)
  then show "is_digit (digit_char d)" and "digit_val (digit_char d) = d"
    and "digit_char d \<noteq> CHR ''-''" and "digit_char d \<noteq> CHR ''+''"
    using assms by (auto simp: is_digit_def digit_val_def)
qed

lemma digits_val_append:
  "digits_val acc (xs @ ys) = (case digits_val acc xs of None \<Rightarrow> None | Some a \<Rightarrow> digits_val a ys)"
  by (induction xs arbitrary: acc) auto

lemma digits_val_nat_dec: "digits_val 0 (nat_dec n) = Some n"
proof (induction n rule: nat_dec.induct)
  case (1 n)
  show ?case
  proof (cases "n < 10")
    case True
    then show ?thesis
      by (subst nat_dec.simps) (simp add: digit_char_props)
  next
    case False
    have "n mod 10 < 10" by simp
    with False "1.IH" show ?thesis
      by (subst nat_dec.simps) (simp add: digits_val_append digit_char_props)
  qed
qed

lemma nat_dec_head: "\<exists>c cs. nat_dec n = c # cs \<and> c \<noteq> CHR ''-'' \<and> c \<noteq> CHR ''+''"
proof (induction n rule: nat_dec.induct)
  case (1 n)
  show ?case
  proof (cases "n < 10")
    case True
    then show ?thesis
      by (subst nat_dec.simps) (simp add: digit_char_props)
  next
    case False
    with "1.IH" obtain c cs where "nat_dec (n div 10) = c # cs" "c \<noteq> CHR ''-''" "c \<noteq> CHR ''+''"
      by blast
    with False show ?thesis
      by (subst nat_dec.simps) simp
  qed
qed

lemma ParseInt_Sprintf_v: "ParseInt (Sprintf_v v) = Inr v"
proof -
  have lo: "- (2 ^ 63) \<le> sint v" and hi: "sint v < 2 ^ 63"
    using sint_ge [of v] sint_lt [of v] by simp_all
  show ?thesis
  proof (cases "sint v < 0")
    case True
    obtain c cs where h: "nat_dec (nat (- sint v)) = c # cs"
      using nat_dec_head by blast
    have d: "digits_val 0 (c # cs) = Some (nat (- sint v))"
      using digits_val_nat_dec [of "nat (- sint v)"] h by simp
    from True lo hi show ?thesis
      unfolding ParseInt_def Sprintf_v_def Let_def
      by (simp add: h d del: digits_val.simps)
  next
    case False
    obtain c cs where h: "nat_dec (nat (sint v)) = c # cs" and c: "c \<noteq> CHR ''-''" "c \<noteq> CHR ''+''"
      using nat_dec_head by blast
    have d: "digits_val 0 (c # cs) = Some (nat (sint v))"
      using digits_val_nat_dec [of "nat (sint v)"] h by simp
    from False lo hi c show ?thesis
      unfolding ParseInt_def Sprintf_v_def Let_def
      by (simp add: h d del: digits_val.simps)
  qed
qed

lemma createWorkflowTemplate_Inr:
  assumes "createWorkflowTemplate col flt namespace wt w = (Inr created, w')"
  shows "\<exists>uid wt1 obj. f_Commit flt = None
             \<and> GenerateUID col wt = Inr (uid, wt1)
             \<and> created = wt1\<lparr>ID := next_template_id w, Version := Now_Unix col\<rparr>
             \<and> createArgoWorkflowTemplate col (wt1\<lparr>ID := next_template_id w\<rparr>) (Now_Unix col) = Inr obj
             \<and> issued w w' = [(ArgoCreate namespace (Some obj), None)]
             \<and> objects w' = objects w @ [obj\<lparr>wft_Namespace := namespace, wft_CreationTimestamp := Now_Unix col\<rparr>]
             \<and> templates (committed w') = templates (committed w) @
                  [\<lparr>t_id = next_template_id w, t_uid = uid, t_name = Name wt1, t_namespace = namespace,
                    t_is_archived = False, t_created_at = Now_Unix col\<rparr>]
             \<and> versions (committed w') = versions (committed w) @
                  [\<lparr>v_id = next_version_id w, v_workflow_template_id = next_template_id w,
                    v_version = Now_Unix col, v_is_latest = True, v_manifest = Manifest wt1,
                    v_created_at = Now_Unix col\<rparr>]"
  using assms
  unfolding create_defs
  by (auto split: sum.splits option.splits prod.splits if_splits)

lemma createWorkflowTemplate_create_failed:
  assumes "createWorkflowTemplate col flt namespace wt w = (r, w')"
      and "(ArgoCreate ns obj, Some e) \<in> set (issued w w')"
  shows "r = Inl e \<and> committed w' = committed w \<and> objects w' = objects w"
  using assms
  unfolding create_defs
  by (auto split: sum.splits option.splits prod.splits if_splits)

lemma createWorkflowTemplate_commit_failed:
  assumes "createWorkflowTemplate col flt namespace wt w = (r, w')"
      and "(ArgoCreate ns obj, None) \<in> set (issued w w')"
      and "f_Commit flt = Some e"
  shows "r = Inl e \<and> committed w' = committed w
       \<and> (\<exists>created. obj = Some created
            \<and> issued w w' = [(ArgoCreate namespace (Some created), None),
                              (ArgoDelete namespace (wft_Name created), f_ArgoDelete flt)])"
  using assms
  unfolding create_defs
  by (auto split: sum.splits option.splits prod.splits if_splits)

lemma CreateWorkflowTemplate_cases:
  assumes "CreateWorkflowTemplate col flt namespace wt w = (r, w')"
  shows "(isl r \<and> w' = w) \<or>
         (\<exists>r0. createWorkflowTemplate col flt namespace wt w = (r0, w')
              \<and> r = (case r0 of Inl e \<Rightarrow> Inl (NewUserErrorWrap col e ''Workflow template'') | Inr c \<Rightarrow> Inr c))"
  using assms unfolding CreateWorkflowTemplate_def
  by (auto split: sum.splits option.splits prod.splits)

text \<open>
  C9: a successful \<^verbatim>\<open>CreateWorkflowTemplate\<close> returns a template whose version is the
  clock value read by the call; the one version row the call commits (the row with the
  id the sequence gave it, owned by the new template and marked latest) carries that
  same version number; and the one cluster object the call creates carries it in its
  name and in its version label, which reads back as the returned version.
\<close>

theorem create_returns_inserted_version:
  assumes "CreateWorkflowTemplate col flt namespace wt w = (Inr created, w')"
  shows "Version created = Now_Unix col
       \<and> (\<exists>row. versions (committed w') = versions (committed w) @ [row]
              \<and> v_id row = next_version_id w
              \<and> v_workflow_template_id row = ID created
              \<and> v_is_latest row
              \<and> v_version row = Version created)
       \<and> (\<exists>obj. issued w w' = [(ArgoCreate namespace (Some obj), None)]
              \<and> objects w' = objects w @ [obj\<lparr>wft_Namespace := namespace, wft_CreationTimestamp := Now_Unix col\<rparr>]
              \<and> wft_Name obj = ToLower (ReplaceAllString False (Name created)) @ ''-v'' @ Sprintf_v (Version created)
              \<and> map_of (wft_Labels obj) label_Version = Some (Sprintf_v (Version created))
              \<and> map_of (wft_Labels obj) label_VersionLatest = Some ''true''
              \<and> map_of (wft_Labels obj) label_WorkflowTemplateUid = Some (UID created)
              \<and> ParseInt (label_or_empty (wft_Labels obj) label_Version) = Inr (Version created))"
proof -
  from CreateWorkflowTemplate_cases [OF assms]
  obtain r0 where r0: "createWorkflowTemplate col flt namespace wt w = (r0, w')"
    and r: "Inr created = (case r0 of Inl e \<Rightarrow> Inl (NewUserErrorWrap col e ''Workflow template'') | Inr c \<Rightarrow> Inr c)"
    by auto
  from r have "r0 = Inr created" by (cases r0) auto
  with r0 have "createWorkflowTemplate col flt namespace wt w = (Inr created, w')"
    by simp
  from createWorkflowTemplate_Inr [OF this]
  obtain uid wt1 obj where created: "created = wt1\<lparr>ID := next_template_id w, Version := Now_Unix col\<rparr>"
    and obj: "createArgoWorkflowTemplate col (wt1\<lparr>ID := next_template_id w\<rparr>) (Now_Unix col) = Inr obj"
    and sent: "issued w w' = [(ArgoCreate namespace (Some obj), None)]"
    and objs: "objects w' = objects w @ [obj\<lparr>wft_Namespace := namespace, wft_CreationTimestamp := Now_Unix col\<rparr>]"
    and vs: "versions (committed w') = versions (committed w) @
                  [\<lparr>v_id = next_version_id w, v_workflow_template_id = next_template_id w,
                    v_version = Now_Unix col, v_is_latest = True, v_manifest = Manifest wt1,
                    v_created_at = Now_Unix col\<rparr>]"
    by blast
  have 1: "Version created = Now_Unix col"
    using created by simp
  have 2: "\<exists>row. versions (committed w') = versions (committed w) @ [row]
              \<and> v_id row = next_version_id w
              \<and> v_workflow_template_id row = ID created
              \<and> v_is_latest row
              \<and> v_version row = Version created"
    using vs created by simp
  note l = createArgoWorkflowTemplate_labels [OF obj]
  have "issued w w' = [(ArgoCreate namespace (Some obj), None)]
      \<and> objects w' = objects w @ [obj\<lparr>wft_Namespace := namespace, wft_CreationTimestamp := Now_Unix col\<rparr>]
      \<and> wft_Name obj = ToLower (ReplaceAllString False (Name created)) @ ''-v'' @ Sprintf_v (Version created)
      \<and> map_of (wft_Labels obj) label_Version = Some (Sprintf_v (Version created))
      \<and> map_of (wft_Labels obj) label_VersionLatest = Some ''true''
      \<and> map_of (wft_Labels obj) label_WorkflowTemplateUid = Some (UID created)
      \<and> ParseInt (label_or_empty (wft_Labels obj) label_Version) = Inr (Version created)"
    using sent objs l created by (simp add: label_or_empty_def ParseInt_Sprintf_v)
  then have 3: "\<exists>obj. issued w w' = [(ArgoCreate namespace (Some obj), None)]
              \<and> objects w' = objects w @ [obj\<lparr>wft_Namespace := namespace, wft_CreationTimestamp := Now_Unix col\<rparr>]
              \<and> wft_Name obj = ToLower (ReplaceAllString False (Name created)) @ ''-v'' @ Sprintf_v (Version created)
              \<and> map_of (wft_Labels obj) label_Version = Some (Sprintf_v (Version created))
              \<and> map_of (wft_Labels obj) label_VersionLatest = Some ''true''
              \<and> map_of (wft_Labels obj) label_WorkflowTemplateUid = Some (UID created)
              \<and> ParseInt (label_or_empty (wft_Labels obj) label_Version) = Inr (Version created)"
    by (rule exI)
  from 1 2 3 show ?thesis by (intro conjI)
qed

theorem create_returns_inserted_version_witness:
  "CreateWorkflowTemplate example_collaborators no_faults ''ns'' template_t1 empty_world
     = (Inr (template_t1\<lparr>UID := ''t1'', ID := 1, Version := 100\<rparr>), world_t1)
   \<and> Version (template_t1\<lparr>UID := ''t1'', ID := 1, Version := 100\<rparr>) = Now_Unix example_collaborators
   \<and> (\<exists>row. versions (committed world_t1) = versions (committed empty_world) @ [row]
          \<and> v_id row = next_version_id empty_world
          \<and> v_workflow_template_id row = ID (template_t1\<lparr>UID := ''t1'', ID := 1, Version := 100\<rparr>)
          \<and> v_is_latest row
          \<and> v_version row = Version (template_t1\<lparr>UID := ''t1'', ID := 1, Version := 100\<rparr>))
   \<and> (\<exists>obj. issued empty_world world_t1 = [(ArgoCreate ''ns'' (Some obj), None)]
          \<and> objects world_t1 = objects empty_world @ [obj\<lparr>wft_Namespace := ''ns'', wft_CreationTimestamp := Now_Unix example_collaborators\<rparr>]
          \<and> wft_Name obj = ToLower (ReplaceAllString False (Name (template_t1\<lparr>UID := ''t1'', ID := 1, Version := 100\<rparr>)))
                              @ ''-v'' @ Sprintf_v (Version (template_t1\<lparr>UID := ''t1'', ID := 1, Version := 100\<rparr>))
          \<and> map_of (wft_Labels obj) label_Version = Some (Sprintf_v (Version (template_t1\<lparr>UID := ''t1'', ID := 1, Version := 100\<rparr>)))
          \<and> map_of (wft_Labels obj) label_VersionLatest = Some ''true''
          \<and> map_of (wft_Labels obj) label_WorkflowTemplateUid = Some (UID (template_t1\<lparr>UID := ''t1'', ID := 1, Version := 100\<rparr>))
          \<and> ParseInt (label_or_empty (wft_Labels obj) label_Version) = Inr (Version (template_t1\<lparr>UID := ''t1'', ID := 1, Version := 100\<rparr>)))"
proof -
  have run: "CreateWorkflowTemplate example_collaborators no_faults ''ns'' template_t1 empty_world
     = (Inr (template_t1\<lparr>UID := ''t1'', ID := 1, Version := 100\<rparr>), world_t1)"
    by code_simp
  from create_returns_inserted_version [OF run] run show ?thesis
    by (intro conjI) blast+
qed

text \<open>
  C1: when the request that creates the cluster object fails during
  \<^verbatim>\<open>CreateWorkflowTemplate\<close>, the call returns that error (through the error wrapper),
  and the committed template rows, the committed version rows and the cluster objects
  are what they were before the call.
\<close>

theorem create_cluster_failure_rolls_back:
  assumes "CreateWorkflowTemplate col flt namespace wt w = (r, w')"
      and "(ArgoCreate ns obj, Some e) \<in> set (issued w w')"
  shows "r = Inl (NewUserErrorWrap col e ''Workflow template'')
       \<and> templates (committed w') = templates (committed w)
       \<and> versions (committed w') = versions (committed w)
       \<and> objects w' = objects w"
proof -
  from assms(2) have "w' \<noteq> w" by (auto simp: issued_def)
  with CreateWorkflowTemplate_cases [OF assms(1)]
  obtain r0 where r0: "createWorkflowTemplate col flt namespace wt w = (r0, w')"
    and r: "r = (case r0 of Inl e \<Rightarrow> Inl (NewUserErrorWrap col e ''Workflow template'') | Inr c \<Rightarrow> Inr c)"
    by blast
  from createWorkflowTemplate_create_failed [OF r0 assms(2)] r show ?thesis
    by simp
qed


theorem create_cluster_failure_rolls_back_witness:
  "CreateWorkflowTemplate example_collaborators (no_faults\<lparr>f_ArgoCreate := Some (StatusError ''down'')\<rparr>)
       ''ns'' template_t1 empty_world
     = (Inl (UserError Unknown ''Unknown error.''),
        empty_world\<lparr>next_template_id := 2, next_version_id := 2,
                     requests := [(ArgoCreate ''ns'' (Some object_t1_v100), Some (StatusError ''down''))]\<rparr>)
   \<and> (ArgoCreate ''ns'' (Some object_t1_v100), Some (StatusError ''down''))
       \<in> set (issued empty_world
                 (empty_world\<lparr>next_template_id := 2, next_version_id := 2,
                     requests := [(ArgoCreate ''ns'' (Some object_t1_v100), Some (StatusError ''down''))]\<rparr>))
   \<and> templates (committed (empty_world\<lparr>next_template_id := 2, next_version_id := 2,
                     requests := [(ArgoCreate ''ns'' (Some object_t1_v100), Some (StatusError ''down''))]\<rparr>)) = []
   \<and> versions (committed (empty_world\<lparr>next_template_id := 2, next_version_id := 2,
                     requests := [(ArgoCreate ''ns'' (Some object_t1_v100), Some (StatusError ''down''))]\<rparr>)) = []
   \<and> objects (empty_world\<lparr>next_template_id := 2, next_version_id := 2,
                     requests := [(ArgoCreate ''ns'' (Some object_t1_v100), Some (StatusError ''down''))]\<rparr>) = []"
proof -
  let ?w = "empty_world\<lparr>next_template_id := 2, next_version_id := 2,
                     requests := [(ArgoCreate ''ns'' (Some object_t1_v100), Some (StatusError ''down''))]\<rparr>"
  have run: "CreateWorkflowTemplate example_collaborators (no_faults\<lparr>f_ArgoCreate := Some (StatusError ''down'')\<rparr>)
       ''ns'' template_t1 empty_world = (Inl (UserError Unknown ''Unknown error.''), ?w)"
    by code_simp
  have failed: "(ArgoCreate ''ns'' (Some object_t1_v100), Some (StatusError ''down'')) \<in> set (issued empty_world ?w)"
    by (simp add: issued_def empty_world_def)
  from create_cluster_failure_rolls_back [OF run failed] run failed show ?thesis
    by (simp add: empty_world_def)
qed

text \<open>
  C6: when the cluster object was created and the commit then fails, exactly one delete
  request is issued, for the object just created, and the error returned is the commit
  error (by \<^verbatim>\<open>createWorkflowTemplate\<close> as it is, by \<^verbatim>\<open>CreateWorkflowTemplate\<close> through
  the error wrapper), whatever the outcome of the delete.
\<close>

theorem commit_failure_deletes_once:
  assumes "CreateWorkflowTemplate col flt namespace wt w = (r, w')"
      and "(ArgoCreate ns obj, None) \<in> set (issued w w')"
      and "f_Commit flt = Some e"
  shows "createWorkflowTemplate col flt namespace wt w = (Inl e, w')
       \<and> r = Inl (NewUserErrorWrap col e ''Workflow template'')
       \<and> length (filter is_ArgoDelete (issued w w')) = 1
       \<and> (\<exists>created. obj = Some created
             \<and> issued w w' = [(ArgoCreate namespace (Some created), None),
                               (ArgoDelete namespace (wft_Name created), f_ArgoDelete flt)])"
proof -
  from assms(2) have "w' \<noteq> w" by (auto simp: issued_def)
  with CreateWorkflowTemplate_cases [OF assms(1)]
  obtain r0 where r0: "createWorkflowTemplate col flt namespace wt w = (r0, w')"
    and r: "r = (case r0 of Inl e \<Rightarrow> Inl (NewUserErrorWrap col e ''Workflow template'') | Inr c \<Rightarrow> Inr c)"
    by blast
  from createWorkflowTemplate_commit_failed [OF r0 assms(2) assms(3)] r0 r show ?thesis
    by auto
qed

theorem commit_failure_deletes_once_witness:
  "CreateWorkflowTemplate example_collaborators
       (no_faults\<lparr>f_Commit := Some (DriverError ''commit''), f_ArgoDelete := Some (StatusError ''down'')\<rparr>)
       ''ns'' template_t1 empty_world
     = (Inl (UserError Unknown ''Unknown error.''),
        world_t1\<lparr>committed := committed empty_world,
                  requests := [(ArgoCreate ''ns'' (Some object_t1_v100), None),
                               (ArgoDelete ''ns'' ''t1-v100'', Some (StatusError ''down''))]\<rparr>)
   \<and> createWorkflowTemplate example_collaborators
       (no_faults\<lparr>f_Commit := Some (DriverError ''commit''), f_ArgoDelete := Some (StatusError ''down'')\<rparr>)
       ''ns'' template_t1 empty_world
     = (Inl (DriverError ''commit''),
        world_t1\<lparr>committed := committed empty_world,
                  requests := [(ArgoCreate ''ns'' (Some object_t1_v100), None),
                               (ArgoDelete ''ns'' ''t1-v100'', Some (StatusError ''down''))]\<rparr>)
   \<and> length (filter is_ArgoDelete (issued empty_world
        (world_t1\<lparr>committed := committed empty_world,
                  requests := [(ArgoCreate ''ns'' (Some object_t1_v100), None),
                               (ArgoDelete ''ns'' ''t1-v100'', Some (StatusError ''down''))]\<rparr>))) = 1"
proof -
  let ?flt = "no_faults\<lparr>f_Commit := Some (DriverError ''commit''), f_ArgoDelete := Some (StatusError ''down'')\<rparr>"
  let ?w = "world_t1\<lparr>committed := committed empty_world,
                  requests := [(ArgoCreate ''ns'' (Some object_t1_v100), None),
                               (ArgoDelete ''ns'' ''t1-v100'', Some (StatusError ''down''))]\<rparr>"
  have run: "CreateWorkflowTemplate example_collaborators ?flt ''ns'' template_t1 empty_world
               = (Inl (UserError Unknown ''Unknown error.''), ?w)"
    by code_simp
  have created: "(ArgoCreate ''ns'' (Some object_t1_v100), None) \<in> set (issued empty_world ?w)"
    by (simp add: issued_def empty_world_def world_t1_def)
  have fault: "f_Commit ?flt = Some (DriverError ''commit'')"
    by simp
  from commit_failure_deletes_once [OF run created fault] run show ?thesis
    by simp
qed


subsection \<open>Select statements\<close>

lemmas builder_defs = Column_def Join_def Where_def GroupBy_def OrderBy_def Limit_def DistinctOn_def
  workflowTemplatesSelectBuilder_def workflowTemplatesVersionSelectBuilder_def

lemma set_first_per_key: "set (first_per_key key xs) \<subseteq> set xs"
  by (induction key xs rule: first_per_key.induct) auto

lemma set_order_rows: "set (order_rows obs rs) = set rs"
  unfolding order_rows_def by (induction obs) (simp_all add: split_beta)

lemma source_rows_joined:
  assumes "r \<in> set (source_rows q db)" and "Wt \<in> set (bound_tables q)" and "Wtv \<in> set (bound_tables q)"
  shows "\<exists>t v. r = (Some t, Some v) \<and> t \<in> set (templates db) \<and> v \<in> set (versions db)
           \<and> v_workflow_template_id v = t_id t"
proof (cases "sb_From q = Wt")
  case True
  with assms have "r \<in> set (concat (map (\<lambda>t. map (\<lambda>v. (Some t, Some v))
                                  (filter (\<lambda>v. v_workflow_template_id v = t_id t) (versions db)))
                        (templates db)))"
    by (simp add: source_rows_def)
  then show ?thesis by auto
next
  case False
  with assms have "r \<in> set (concat (map (\<lambda>v. map (\<lambda>t. (Some t, Some v))
                                  (filter (\<lambda>t. v_workflow_template_id v = t_id t) (templates db)))
                        (versions db)))"
    by (simp add: source_rows_def)
  then show ?thesis by auto
qed

lemma list_query_fields:
  "list_query namespace =
     \<lparr>sb_DistinctOn = [Wt_id],
      sb_Columns = [Wt_id, Wt_created_at, Wt_uid, Wt_name, Wt_is_archived, Count_wtv],
      sb_From = Wt, sb_Joins = [Wtv],
      sb_Where = [(Wt_namespace, VStr namespace), (Wt_is_archived, VBool False)],
      sb_GroupBy = [Wt_id, Wt_created_at, Wt_uid, Wt_name, Wt_is_archived],
      sb_OrderBy = [(Wt_id, True)], sb_Limit = None\<rparr>"
  by (simp add: list_query_def builder_defs)

lemma group_rows_member: "g \<in> set (group_rows key rs) \<Longrightarrow> fst g \<in> set rs"
proof (induction key rs rule: group_rows.induct)
  case (1 key)
  then show ?case by simp
next
  case (2 key x xs)
  from "2.prems" have "fst g = x \<or> g \<in> set (group_rows key (filter (\<lambda>y. key y \<noteq> key x) xs))"
    by (simp only: group_rows.simps set_simps insert_iff) (erule disjE, simp_all)
  then show ?case
  proof
    assume "fst g = x"
    then show ?thesis by simp
  next
    assume "g \<in> set (group_rows key (filter (\<lambda>y. key y \<noteq> key x) xs))"
    then have "fst g \<in> set (filter (\<lambda>y. key y \<noteq> key x) xs)" by (rule "2.IH")
    then show ?thesis by simp
  qed
qed


lemma run_list_query_eq:
  "run_select (list_query namespace) db =
     Inr (map (\<lambda>r. map (\<lambda>c. (c, col_value c r)) (sb_Columns (list_query namespace)))
            (first_per_key (\<lambda>r. map (\<lambda>c. col_value c r) (sb_DistinctOn (list_query namespace)))
               (order_rows (sb_OrderBy (list_query namespace))
                  (group_rows (\<lambda>r. map (\<lambda>c. col_value c (r, 0)) (sb_GroupBy (list_query namespace)))
                     (filter (satisfies (sb_Where (list_query namespace)))
                        (source_rows (list_query namespace) db))))))"
proof -
  have 1: "\<not> list_ex (\<lambda>c. table_of c \<notin> set (bound_tables (list_query namespace))) (referenced (list_query namespace))"
    by (simp add: list_query_fields bound_tables_def referenced_def)
  have 2: "aggregated (list_query namespace)" "sb_GroupBy (list_query namespace) \<noteq> []"
    by (simp_all add: list_query_fields aggregated_def)
  have 3: "\<not> list_ex (\<lambda>c. c \<noteq> Count_wtv \<and> c \<notin> set (sb_GroupBy (list_query namespace))) (sb_Columns (list_query namespace))"
    by (simp add: list_query_fields)
  have 4: "take (length (sb_DistinctOn (list_query namespace))) (map fst (sb_OrderBy (list_query namespace)))
             = sb_DistinctOn (list_query namespace)"
      "sb_DistinctOn (list_query namespace) \<noteq> []" "sb_Limit (list_query namespace) = None"
    by (simp_all add: list_query_fields)
  show ?thesis
    unfolding run_select_def Let_def
    by (simp only: 1 2 3 4 if_False if_True simp_thms option.case)
qed


lemma run_list_query_row:
  assumes "run_select (list_query namespace) db = Inr rows" and "x \<in> set rows"
  shows "\<exists>t n. t \<in> set (templates db) \<and> t_namespace t = namespace \<and> \<not> t_is_archived t
           \<and> x = [(Wt_id, Some (VNat (t_id t))), (Wt_created_at, Some (VInt (t_created_at t))),
                   (Wt_uid, Some (VStr (t_uid t))), (Wt_name, Some (VStr (t_name t))),
                   (Wt_is_archived, Some (VBool False)), (Count_wtv, Some (VNat n))]"
proof -
  let ?q = "list_query namespace"
  let ?rows = "filter (satisfies (sb_Where ?q)) (source_rows ?q db)"
  let ?groups = "group_rows (\<lambda>r. map (\<lambda>c. col_value c (r, 0)) (sb_GroupBy ?q)) ?rows"
  let ?kept = "first_per_key (\<lambda>r. map (\<lambda>c. col_value c r) (sb_DistinctOn ?q)) (order_rows (sb_OrderBy ?q) ?groups)"
  from assms(1) have "rows = map (\<lambda>r. map (\<lambda>c. (c, col_value c r)) (sb_Columns ?q)) ?kept"
    by (simp only: run_list_query_eq sum.inject)
  with assms(2) obtain g where g: "g \<in> set ?kept"
    and x: "x = map (\<lambda>c. (c, col_value c g)) (sb_Columns ?q)"
    by auto
  from g have "g \<in> set (order_rows (sb_OrderBy ?q) ?groups)"
    by (rule subsetD [OF set_first_per_key])
  then have "g \<in> set ?groups"
    by (simp only: set_order_rows)
  then have "fst g \<in> set ?rows"
    by (rule group_rows_member)
  then have sat: "satisfies (sb_Where ?q) (fst g)" and src: "fst g \<in> set (source_rows ?q db)"
    by simp_all
  have "Wt \<in> set (bound_tables ?q)" "Wtv \<in> set (bound_tables ?q)"
    by (simp_all add: list_query_fields bound_tables_def)
  from source_rows_joined [OF src this]
  obtain t v where r: "fst g = (Some t, Some v)" and t: "t \<in> set (templates db)"
    by blast
  from sat r have ns: "t_namespace t = namespace" and na: "\<not> t_is_archived t"
    by (simp_all add: satisfies_def list_query_fields)
  obtain n where gn: "g = ((Some t, Some v), n)"
    using r by (cases g) simp
  from x gn na have "x = [(Wt_id, Some (VNat (t_id t))), (Wt_created_at, Some (VInt (t_created_at t))),
                   (Wt_uid, Some (VStr (t_uid t))), (Wt_name, Some (VStr (t_name t))),
                   (Wt_is_archived, Some (VBool False)), (Count_wtv, Some (VNat n))]"
    by (simp add: list_query_fields)
  with t ns na show ?thesis by blast
qed


subsection \<open>Listing templates\<close>

lemma listWorkflowTemplates_row:
  assumes "listWorkflowTemplates flt namespace w = Inr ts" and "x \<in> set ts"
  shows "\<not> IsArchived x
       \<and> (\<exists>t \<in> set (templates (committed w)). t_id t = ID x \<and> t_uid t = UID x
              \<and> t_namespace t = namespace \<and> \<not> t_is_archived t)"
proof -
  from assms(1) obtain rows where rows: "run_select (list_query namespace) (committed w) = Inr rows"
    and ts: "ts = map (\<lambda>r. fold scan_WorkflowTemplate r WorkflowTemplate_zero) rows"
    unfolding listWorkflowTemplates_def list_query_def [symmetric]
    by (auto simp: ToSql_def DB_Select_def list_query_fields split: if_splits option.splits sum.splits)
  from ts assms(2) obtain r where r: "r \<in> set rows"
    and x: "x = fold scan_WorkflowTemplate r WorkflowTemplate_zero"
    by auto
  from run_list_query_row [OF rows r] x show ?thesis
    by auto
qed


lemma labels_loop_keeps:
  "list_all2 (\<lambda>a b. \<exists>l. b = a\<lparr>Labels := l\<rparr>) ts (fst (labels_loop flt namespace ts w))"
proof (induction ts arbitrary: w)
  case Nil
  then show ?case by simp
next
  case (Cons t ts)
  obtain r w1 where g: "GetWorkflowTemplateLabels flt namespace (UID t) label_TagPrefix (Version t) w = (r, w1)"
    by (cases "GetWorkflowTemplateLabels flt namespace (UID t) label_TagPrefix (Version t) w")
  obtain rest w2 where l: "labels_loop flt namespace ts w1 = (rest, w2)"
    by (cases "labels_loop flt namespace ts w1")
  from Cons.IH [of w1] l have ih: "list_all2 (\<lambda>a b. \<exists>l. b = a\<lparr>Labels := l\<rparr>) ts rest"
    by simp
  have "t = t\<lparr>Labels := Labels t\<rparr>" by simp
  then have keep: "\<exists>l. t = t\<lparr>Labels := l\<rparr>" ..
  show ?case
  proof (cases r)
    case (Inl e)
    with g l ih keep show ?thesis by simp
  next
    case (Inr ls)
    with g l ih show ?thesis by auto
  qed
qed


lemma list_all2_right_member:
  "list_all2 P xs ys \<Longrightarrow> y \<in> set ys \<Longrightarrow> \<exists>x \<in> set xs. P x y"
  by (induction rule: list_all2_induct) auto

text \<open>
  C10: every template returned by \<^verbatim>\<open>ListWorkflowTemplates\<close> has its archived flag
  false and comes from a template row of the namespace that is not archived; a row
  that is archived is in the store and not in the list.
\<close>

theorem list_templates_excludes_archived:
  assumes "ListWorkflowTemplates col flt namespace w = (Inr ts, w')"
  shows "\<forall>x \<in> set ts. \<not> IsArchived x
           \<and> (\<exists>t \<in> set (templates (committed w)). t_id t = ID x \<and> t_uid t = UID x
                  \<and> t_namespace t = namespace \<and> \<not> t_is_archived t)"
proof
  fix x assume x: "x \<in> set ts"
  from assms obtain ts0 report where l: "listWorkflowTemplates flt namespace w = Inr ts0"
    and ll: "labels_loop flt namespace
               (map (\<lambda>t. t\<lparr>WorkflowExecutionStatisticReport := report t\<rparr>) ts0) w = (ts, w')"
    unfolding ListWorkflowTemplates_def
    by (auto split: sum.splits prod.splits)
  from ll have ts: "ts = fst (labels_loop flt namespace
                         (map (\<lambda>t. t\<lparr>WorkflowExecutionStatisticReport := report t\<rparr>) ts0) w)"
    by simp
  let ?in = "map (\<lambda>t. t\<lparr>WorkflowExecutionStatisticReport := report t\<rparr>) ts0"
  have "list_all2 (\<lambda>a b. \<exists>l. b = a\<lparr>Labels := l\<rparr>) ?in ts"
    unfolding ts by (rule labels_loop_keeps)
  from list_all2_right_member [OF this x]
  obtain a ls where a: "a \<in> set ?in" and xa: "x = a\<lparr>Labels := ls\<rparr>"
    by blast
  from a obtain b where b: "b \<in> set ts0" and ab: "a = b\<lparr>WorkflowExecutionStatisticReport := report b\<rparr>"
    by auto
  from listWorkflowTemplates_row [OF l b] xa ab
  show "\<not> IsArchived x
           \<and> (\<exists>t \<in> set (templates (committed w)). t_id t = ID x \<and> t_uid t = UID x
                  \<and> t_namespace t = namespace \<and> \<not> t_is_archived t)"
    by simp
qed


theorem list_templates_excludes_archived_witness:
  "ListWorkflowTemplates example_collaborators no_faults ''ns'' world_archived
     = (Inr [WorkflowTemplate_zero\<lparr>ID := 2, CreatedAt := 100, UID := ''t2'', Name := ''t2'', Versions := 1\<rparr>],
        world_archived\<lparr>requests :=
          [(ArgoList ''ns'' [(''template-identity'', ''t2''), (''version-latest'', ''true'')], None)]\<rparr>)
   \<and> (\<exists>t \<in> set (templates (committed world_archived)). t_namespace t = ''ns'' \<and> t_is_archived t)
   \<and> \<not> IsArchived (WorkflowTemplate_zero\<lparr>ID := 2, CreatedAt := 100, UID := ''t2'', Name := ''t2'', Versions := 1\<rparr>)
   \<and> (\<exists>t \<in> set (templates (committed world_archived)).
          t_id t = ID (WorkflowTemplate_zero\<lparr>ID := 2, CreatedAt := 100, UID := ''t2'', Name := ''t2'', Versions := 1\<rparr>)
          \<and> t_uid t = UID (WorkflowTemplate_zero\<lparr>ID := 2, CreatedAt := 100, UID := ''t2'', Name := ''t2'', Versions := 1\<rparr>)
          \<and> t_namespace t = ''ns'' \<and> \<not> t_is_archived t)"
proof -
  have run: "ListWorkflowTemplates example_collaborators no_faults ''ns'' world_archived
     = (Inr [WorkflowTemplate_zero\<lparr>ID := 2, CreatedAt := 100, UID := ''t2'', Name := ''t2'', Versions := 1\<rparr>],
        world_archived\<lparr>requests :=
          [(ArgoList ''ns'' [(''template-identity'', ''t2''), (''version-latest'', ''true'')], None)]\<rparr>)"
    by code_simp
  have archived: "\<exists>t \<in> set (templates (committed world_archived)). t_namespace t = ''ns'' \<and> t_is_archived t"
    by (simp add: world_archived_def)
  from list_templates_excludes_archived [OF run] run archived show ?thesis
    by simp
qed

subsection \<open>Listing versions\<close>

text \<open>
  C4: in a world where the cluster holds an object of identity \<^verbatim>\<open>t1\<close> with version label
  50 and no version row has version 50, \<^verbatim>\<open>ListWorkflowTemplateVersions\<close> does not return
  an error: the lookup of the missing row yields a nil pointer whose manifest is read,
  and the call panics.
\<close>

theorem list_versions_panics_on_orphan:
  "fst (ListWorkflowTemplateVersions no_faults ''ns'' ''t1'' world_orphan)
     = Panics ''invalid memory address or nil pointer dereference''
   \<and> map (\<lambda>ob. ParseInt (label_or_empty (wft_Labels ob) label_Version))
        (filter (matches ''ns'' [(label_WorkflowTemplateUid, ''t1'')]) (objects world_orphan))
       = [Inr 100, Inr 50]
   \<and> map v_version (versions (committed world_orphan)) = [100]"
  by code_simp

subsection \<open>Statements without grouping\<close>

lemma run_select_plain:
  assumes "\<not> aggregated q" and "sb_DistinctOn q = []" and "sb_OrderBy q = []" and "sb_Limit q = None"
      and "\<forall>c \<in> set (referenced q). table_of c \<in> set (bound_tables q)"
  shows "run_select q db =
           Inr (map (\<lambda>r. map (\<lambda>c. (c, col_value c (r, 1))) (sb_Columns q))
                  (filter (satisfies (sb_Where q)) (source_rows q db)))"
proof -
  from assms(5) have "\<not> list_ex (\<lambda>c. table_of c \<notin> set (bound_tables q)) (referenced q)"
    by (simp add: list_ex_iff)
  with assms(1-4) show ?thesis
    unfolding run_select_def Let_def order_rows_def
    by (simp add: comp_def)
qed

lemma template_query_fields:
  "template_query namespace uid =
     \<lparr>sb_DistinctOn = [],
      sb_Columns = [Wt_id, Wt_created_at, Wt_uid, Wt_name, Wt_is_archived],
      sb_From = Wt, sb_Joins = [],
      sb_Where = [(Wt_namespace, VStr namespace), (Wt_uid, VStr uid)],
      sb_GroupBy = [], sb_OrderBy = [], sb_Limit = None\<rparr>"
  by (simp add: template_query_def builder_defs)

lemma rows_template_query:
  "filter (satisfies (sb_Where (template_query namespace uid))) (source_rows (template_query namespace uid) db)
     = map (\<lambda>t. (Some t, None)) (template_rows_for namespace uid db)"
proof -
  have src: "source_rows (template_query namespace uid) db = map (\<lambda>t. (Some t, None)) (templates db)"
    by (simp add: source_rows_def template_query_fields bound_tables_def)
  show ?thesis
    unfolding src template_rows_for_def filter_map
    by (rule arg_cong [where f = "map (\<lambda>t. (Some t, None))"], rule filter_cong)
       (auto simp: satisfies_def template_query_fields)
qed

lemma run_template_query:
  "run_select (template_query namespace uid) db =
     Inr (map (\<lambda>t. [(Wt_id, Some (VNat (t_id t))), (Wt_created_at, Some (VInt (t_created_at t))),
                     (Wt_uid, Some (VStr (t_uid t))), (Wt_name, Some (VStr (t_name t))),
                     (Wt_is_archived, Some (VBool (t_is_archived t)))])
            (template_rows_for namespace uid db))"
proof -
  have "run_select (template_query namespace uid) db =
           Inr (map (\<lambda>r. map (\<lambda>c. (c, col_value c (r, 1))) (sb_Columns (template_query namespace uid)))
                  (filter (satisfies (sb_Where (template_query namespace uid)))
                     (source_rows (template_query namespace uid) db)))"
    by (rule run_select_plain)
       (simp_all add: template_query_fields aggregated_def referenced_def bound_tables_def)
  then show ?thesis
    unfolding rows_template_query
    by (simp add: template_query_fields)
qed

lemma DB_Get_template_query:
  "DB_Get fault scan_WorkflowTemplate WorkflowTemplate_zero (template_query namespace uid) w =
     (case fault of
        Some e \<Rightarrow> Inl e
      | None \<Rightarrow> (case template_rows_for namespace uid (committed w) of
                   [] \<Rightarrow> Inl ErrNoRows
                 | t # _ \<Rightarrow> Inr (scanned_template t)))"
  by (simp add: DB_Get_def run_template_query scanned_template_def WorkflowTemplate_zero_def
        split: option.splits list.splits)

lemma ToSql_template_query: "ToSql (template_query namespace uid) = Inr (template_query namespace uid)"
  by (simp add: ToSql_def template_query_fields)

subsection \<open>Reading one template\<close>

lemma get_query_fields:
  "get_query namespace uid version =
     \<lparr>sb_DistinctOn = [],
      sb_Columns = [Wt_id, Wt_created_at, Wt_uid, Wt_name, Wt_is_archived, Wtv_manifest],
      sb_From = Wt, sb_Joins = [Wtv],
      sb_Where = [(Wt_namespace, VStr namespace), (Wt_uid, VStr uid),
                  (if version = 0 then (Wtv_is_latest, VBool True) else (Wtv_version, VInt version))],
      sb_GroupBy = [], sb_OrderBy = [], sb_Limit = None\<rparr>"
  by (simp add: get_query_def builder_defs)

lemma source_rows_get_query:
  "source_rows (get_query namespace uid version) db = map (\<lambda>(t, v). (Some t, Some v)) (joined db)"
  by (simp add: source_rows_def get_query_fields bound_tables_def joined_def map_concat comp_def)

lemma rows_get_query:
  "filter (satisfies (sb_Where (get_query namespace uid version))) (source_rows (get_query namespace uid version) db)
     = map (\<lambda>(t, v). (Some t, Some v)) (version_rows_for namespace uid version db)"
  unfolding source_rows_get_query version_rows_for_def filter_map
  by (rule arg_cong [where f = "map (\<lambda>(t, v). (Some t, Some v))"], rule filter_cong)
     (auto simp: satisfies_def get_query_fields)

lemma run_get_query:
  "run_select (get_query namespace uid version) db =
     Inr (map (\<lambda>(t, v). [(Wt_id, Some (VNat (t_id t))), (Wt_created_at, Some (VInt (t_created_at t))),
                          (Wt_uid, Some (VStr (t_uid t))), (Wt_name, Some (VStr (t_name t))),
                          (Wt_is_archived, Some (VBool (t_is_archived t))),
                          (Wtv_manifest, Some (VStr (v_manifest v)))])
            (version_rows_for namespace uid version db))"
proof -
  have "run_select (get_query namespace uid version) db =
           Inr (map (\<lambda>r. map (\<lambda>c. (c, col_value c (r, 1))) (sb_Columns (get_query namespace uid version)))
                  (filter (satisfies (sb_Where (get_query namespace uid version)))
                     (source_rows (get_query namespace uid version) db)))"
    by (rule run_select_plain)
       (simp_all add: get_query_fields aggregated_def referenced_def bound_tables_def)
  then show ?thesis
    unfolding rows_get_query
    by (simp add: get_query_fields split_beta)
qed

lemma DB_Get_get_query:
  "DB_Get fault scan_WorkflowTemplate (WorkflowTemplate_zero\<lparr>WorkflowExecutionStatisticReport := Some []\<rparr>)
       (get_query namespace uid version) w =
     (case fault of
        Some e \<Rightarrow> Inl e
      | None \<Rightarrow> (case version_rows_for namespace uid version (committed w) of
                   [] \<Rightarrow> Inl ErrNoRows
                 | (t, v) # _ \<Rightarrow> Inr (scanned t v)))"
  by (simp add: DB_Get_def run_get_query scanned_def WorkflowTemplate_zero_def
        split: option.splits list.splits prod.splits)

lemma ToSql_get_query: "ToSql (get_query namespace uid version) = Inr (get_query namespace uid version)"
  by (simp add: ToSql_def get_query_fields)

lemma nat_dec_head_digit: "\<exists>c cs. nat_dec n = c # cs \<and> is_digit c"
proof (induction n rule: nat_dec.induct)
  case (1 n)
  show ?case
  proof (cases "n < 10")
    case True
    then show ?thesis
      by (subst nat_dec.simps) (simp add: digit_char_props)
  next
    case False
    with "1.IH" obtain c cs where "nat_dec (n div 10) = c # cs" "is_digit c"
      by blast
    with False show ?thesis
      by (subst nat_dec.simps) simp
  qed
qed

lemma Sprintf_v_not_latest: "Sprintf_v v \<noteq> ''latest''"
proof (cases "sint v < 0")
  case True
  then show ?thesis by (simp add: Sprintf_v_def)
next
  case False
  obtain c cs where "nat_dec (nat (sint v)) = c # cs" "is_digit c"
    using nat_dec_head_digit by blast
  with False show ?thesis
    by (auto simp: Sprintf_v_def is_digit_def)
qed

lemma getArgoWorkflowTemplate_eq:
  "getArgoWorkflowTemplate flt namespace uid (if version \<noteq> 0 then Sprintf_v version else ''latest'') w =
     ((case f_ArgoGetList flt of
         Some e \<Rightarrow> Inl e
       | None \<Rightarrow>
           (case selected namespace uid version w of
              [] \<Rightarrow> Inl (ErrorString ''not found'')
            | [a] \<Rightarrow> Inr a
            | _ \<Rightarrow> Inl (ErrorString ''not unique result''))),
      record_request (ArgoList namespace (get_selector uid version)) (f_ArgoGetList flt) w)"
  by (cases "selected namespace uid version w"; cases "tl (selected namespace uid version w)")
     (auto simp: getArgoWorkflowTemplate_def argo_List_def selected_def get_selector_def Let_def
        Sprintf_v_not_latest split: option.splits)

lemma getWorkflowTemplate_eq:
  "getWorkflowTemplate flt namespace uid version w =
     (if lookup_no_rows flt namespace uid version w then (Inr None, w)
      else (lookup_result flt namespace uid version w,
            record_request (ArgoList namespace (get_selector uid version)) (f_ArgoGetList flt) w))"
proof -
  let ?dest = "WorkflowTemplate_zero\<lparr>WorkflowExecutionStatisticReport := Some []\<rparr>"
  let ?got = "DB_Get (f_Get flt) scan_WorkflowTemplate ?dest (get_query namespace uid version) w"
  have no_rows: "(?got = Inl ErrNoRows) = lookup_no_rows flt namespace uid version w"
    by (auto simp: DB_Get_get_query lookup_no_rows_def split: option.splits list.splits)
  have found: "(case ?got of Inr x \<Rightarrow> x | Inl e \<Rightarrow> ?dest) = looked_up flt namespace uid version w"
    by (auto simp: DB_Get_get_query looked_up_def split: option.splits list.splits)
  have "getWorkflowTemplate flt namespace uid version w =
          (if ?got = Inl ErrNoRows then (Inr None, w)
           else (case getArgoWorkflowTemplate flt namespace uid
                        (if version \<noteq> 0 then Sprintf_v version else ''latest'') w of
                   (Inl e, w1) \<Rightarrow> (Inl e, w1)
                 | (Inr argoWft, w1) \<Rightarrow>
                     (case ParseInt (label_or_empty (wft_Labels argoWft) label_Version) of
                        Inl e \<Rightarrow> (Inl e, w1)
                      | Inr templateVersion \<Rightarrow>
                          (Inr (Some ((case ?got of Inr x \<Rightarrow> x | Inl e \<Rightarrow> ?dest)
                                        \<lparr>ArgoWorkflowTemplate := Some argoWft,
                                           Version := templateVersion\<rparr>)), w1))))"
    unfolding getWorkflowTemplate_def Let_def get_query_def [symmetric]
    by (simp only: ToSql_get_query sum.case)
  also have "\<dots> = (if lookup_no_rows flt namespace uid version w then (Inr None, w)
      else (lookup_result flt namespace uid version w,
            record_request (ArgoList namespace (get_selector uid version)) (f_ArgoGetList flt) w))"
    unfolding no_rows found getArgoWorkflowTemplate_eq lookup_result_def
    by (cases "selected namespace uid version w"; cases "tl (selected namespace uid version w)")
       (auto split: option.splits sum.splits)
  finally show ?thesis .
qed

lemma GetWorkflowTemplate_eq:
  "GetWorkflowTemplate flt namespace uid version w =
     (if lookup_no_rows flt namespace uid version w
      then (Inl (UserError NotFound ''Workflow template not found.''), w)
      else ((case lookup_result flt namespace uid version w of
               Inl e \<Rightarrow> Inl (UserError Unknown ''Unknown error.'')
             | Inr None \<Rightarrow> Inl (UserError NotFound ''Workflow template not found.'')
             | Inr (Some t) \<Rightarrow> Inr t),
            record_request (ArgoList namespace (get_selector uid version)) (f_ArgoGetList flt) w))"
  unfolding GetWorkflowTemplate_def getWorkflowTemplate_eq
  by (simp split: sum.splits option.splits)


lemma lookup_result_Some:
  assumes "lookup_result flt namespace uid version w = Inr (Some t)"
  shows "\<exists>a. selected namespace uid version w = [a] \<and> ArgoWorkflowTemplate t = Some a
             \<and> ParseInt (label_or_empty (wft_Labels a) label_Version) = Inr (Version t)
             \<and> t = (looked_up flt namespace uid version w)\<lparr>ArgoWorkflowTemplate := Some a, Version := Version t\<rparr>"
  using assms
  by (cases "selected namespace uid version w"; cases "tl (selected namespace uid version w)")
     (auto simp: lookup_result_def split: option.splits sum.splits)

lemma lookup_result_not_None: "lookup_result flt namespace uid version w \<noteq> Inr None"
  by (cases "selected namespace uid version w"; cases "tl (selected namespace uid version w)")
     (auto simp: lookup_result_def split: option.splits sum.splits)




subsection \<open>Reading a template by name\<close>

lemma run_by_name_query:
  "run_select (by_name_query namespace name version) db = Inl (DriverError ''missing FROM-clause entry for table'')"
proof -
  have "list_ex (\<lambda>c. table_of c \<notin> set (bound_tables (by_name_query namespace name version)))
          (referenced (by_name_query namespace name version))"
    by (simp add: by_name_query_def builder_defs bound_tables_def referenced_def)
  then show ?thesis
    by (simp only: run_select_def if_True)
qed

lemma getWorkflowTemplateByName_eq:
  "getWorkflowTemplateByName flt namespace name version w =
     (case f_Get flt of
        Some e \<Rightarrow> (if e = ErrNoRows then Inr None else Inl e)
      | None \<Rightarrow> Inl (DriverError ''missing FROM-clause entry for table''))"
proof -
  have sql: "ToSql (by_name_query namespace name version) = Inr (by_name_query namespace name version)"
    by (simp add: ToSql_def by_name_query_def builder_defs)
  have got: "DB_Get (f_Get flt) scan_WorkflowTemplate WorkflowTemplate_zero (by_name_query namespace name version) w
               = (case f_Get flt of Some e \<Rightarrow> Inl e
                  | None \<Rightarrow> Inl (DriverError ''missing FROM-clause entry for table''))"
    by (simp add: DB_Get_def run_by_name_query split: option.splits)
  show ?thesis
    unfolding getWorkflowTemplateByName_def Let_def by_name_query_def [symmetric]
    by (simp add: sql got split: option.splits)
qed

lemma GetWorkflowTemplateByName_never_returns:
  "isl (GetWorkflowTemplateByName flt namespace name version w)"
  by (simp add: GetWorkflowTemplateByName_def getWorkflowTemplateByName_eq split: option.splits)

lemma GetWorkflowTemplate_returns_requested:
  assumes "f_Get flt = None"
      and "fst (GetWorkflowTemplate flt namespace uid version w) = Inr t"
  shows "\<exists>row v rest a. version_rows_for namespace uid version (committed w) = (row, v) # rest
           \<and> selected namespace uid version w = [a]
           \<and> Manifest t = v_manifest v \<and> ID t = t_id row \<and> UID t = uid
           \<and> ArgoWorkflowTemplate t = Some a
           \<and> ParseInt (label_or_empty (wft_Labels a) label_Version) = Inr (Version t)
           \<and> (if version = 0
               then v_is_latest v \<and> map_of (wft_Labels a) label_VersionLatest = Some ''true''
               else v_version v = version \<and> Version t = version)"
proof -
  from assms(2) have nr: "\<not> lookup_no_rows flt namespace uid version w"
    and lr: "lookup_result flt namespace uid version w = Inr (Some t)"
    by (auto simp: GetWorkflowTemplate_eq split: if_splits sum.splits option.splits)
  from nr assms(1) obtain row v rest where rows: "version_rows_for namespace uid version (committed w) = (row, v) # rest"
    by (cases "version_rows_for namespace uid version (committed w)") (auto simp: lookup_no_rows_def)
  then have "(row, v) \<in> set (version_rows_for namespace uid version (committed w))"
    by simp
  then have sel: "t_uid row = uid" "if version = 0 then v_is_latest v else v_version v = version"
    by (auto simp: version_rows_for_def split: if_splits)
  from rows assms(1) have lu: "looked_up flt namespace uid version w = scanned row v"
    by (simp add: looked_up_def)
  from lookup_result_Some [OF lr] obtain a where a: "selected namespace uid version w = [a]"
    and at: "ArgoWorkflowTemplate t = Some a"
    and pv: "ParseInt (label_or_empty (wft_Labels a) label_Version) = Inr (Version t)"
    and t: "t = (looked_up flt namespace uid version w)\<lparr>ArgoWorkflowTemplate := Some a, Version := Version t\<rparr>"
    by blast
  from a have "a \<in> set (selected namespace uid version w)" by simp
  then have m: "matches namespace (get_selector uid version) a"
    by (simp add: selected_def)
  have fields: "Manifest t = v_manifest v" "ID t = t_id row" "UID t = uid"
    using arg_cong [OF t, of Manifest] arg_cong [OF t, of ID] arg_cong [OF t, of UID] lu sel(1)
    by (simp_all add: scanned_def)
  have last: "if version = 0
               then v_is_latest v \<and> map_of (wft_Labels a) label_VersionLatest = Some ''true''
               else v_version v = version \<and> Version t = version"
  proof (cases "version = 0")
    case True
    with m sel(2) show ?thesis
      by (simp add: matches_def get_selector_def)
  next
    case False
    with m have "map_of (wft_Labels a) label_Version = Some (Sprintf_v version)"
      by (simp add: matches_def get_selector_def)
    with pv have "Version t = version"
      by (simp add: label_or_empty_def ParseInt_Sprintf_v)
    with False sel(2) show ?thesis by simp
  qed
  from rows a fields at pv last show ?thesis by blast
qed

text \<open>
  C8: template \<^verbatim>\<open>t1\<close> is in the store with its version 100 marked latest, and
  \<^verbatim>\<open>GetWorkflowTemplate\<close> returns it for version 0 and for version 100.
  \<^verbatim>\<open>GetWorkflowTemplateByName\<close> returns neither: its statement names columns of
  \<^verbatim>\<open>wtv\<close> without joining that table, the database refuses it, and the call fails with
  \<^verbatim>\<open>Unknown\<close>.
\<close>

theorem get_by_name_fails_on_existing_template:
  "GetWorkflowTemplateByName no_faults ''ns'' ''t1'' 0 world_t1 = Inl (UserError Unknown ''Unknown error.'')
   \<and> GetWorkflowTemplateByName no_faults ''ns'' ''t1'' 100 world_t1 = Inl (UserError Unknown ''Unknown error.'')
   \<and> run_select (by_name_query ''ns'' ''t1'' 0) (committed world_t1)
        = Inl (DriverError ''missing FROM-clause entry for table'')
   \<and> map (\<lambda>(t, v). (t_name t, v_version v, v_is_latest v)) (joined (committed world_t1)) = [(''t1'', 100, True)]
   \<and> map_sum id Manifest (fst (GetWorkflowTemplate no_faults ''ns'' ''t1'' 0 world_t1)) = Inr ''M1''
   \<and> map_sum id Version (fst (GetWorkflowTemplate no_faults ''ns'' ''t1'' 100 world_t1)) = Inr 100"
  by code_simp

subsection \<open>Archive\<close>

lemma archiveWorkflowTemplate_eq:
  "archiveWorkflowTemplate flt namespace uid w =
     (case f_ExecArchive flt of
        Some e \<Rightarrow> (Inl e, w)
      | None \<Rightarrow>
          (Inr True,
           w\<lparr>committed := (committed w)\<lparr>templates := archived_rows namespace uid (templates (committed w))\<rparr>\<rparr>))"
  by (simp add: archiveWorkflowTemplate_def exec_archive_def archived_rows_def split: option.splits)

lemma ArchiveWorkflowTemplate_eq:
  "ArchiveWorkflowTemplate flt namespace uid w =
     (if lookup_no_rows flt namespace uid 0 w
      then (Inl (UserError NotFound ''Workflow template not found.''), w)
      else (let w1 = record_request (ArgoList namespace (get_selector uid 0)) (f_ArgoGetList flt) w
            in if isl (lookup_result flt namespace uid 0 w)
               then (Inl (UserError Unknown ''Unable to archive workflow template.''), w1)
               else (case f_ExecArchive flt of
                       Some e \<Rightarrow> (Inl (UserError Unknown ''Unable to archive workflow template.''), w1)
                     | None \<Rightarrow>
                         (Inr True,
                          w1\<lparr>committed := (committed w)\<lparr>templates :=
                                archived_rows namespace uid (templates (committed w))\<rparr>\<rparr>))))"
proof -
  have nn: "lookup_result flt namespace uid 0 w \<noteq> Inr None"
    by (rule lookup_result_not_None)
  show ?thesis
    unfolding ArchiveWorkflowTemplate_def getWorkflowTemplate_eq archiveWorkflowTemplate_eq Let_def
    using nn
    by (cases "lookup_result flt namespace uid 0 w")
       (auto simp: record_request_def split: option.splits)
qed




subsection \<open>Appending a version\<close>

lemma argo_List_world:
  "argo_List fault namespace sel w = (r, w') \<Longrightarrow>
     committed w' = committed w \<and> next_version_id w' = next_version_id w
     \<and> next_template_id w' = next_template_id w \<and> objects w' = objects w"
  by (auto simp: argo_List_def record_request_def split: option.splits)

lemma getArgoWorkflowTemplate_world:
  "getArgoWorkflowTemplate flt namespace uid version w = (r, w') \<Longrightarrow>
     committed w' = committed w \<and> next_version_id w' = next_version_id w
     \<and> next_template_id w' = next_template_id w \<and> objects w' = objects w"
  by (auto simp: getArgoWorkflowTemplate_def Let_def split: prod.splits sum.splits if_splits list.splits
        dest: argo_List_world)

lemma argo_Update_world:
  "argo_Update flt namespace obj w = (r, w') \<Longrightarrow>
     committed w' = committed w \<and> next_version_id w' = next_version_id w
     \<and> next_template_id w' = next_template_id w"
  by (auto simp: argo_Update_def record_request_def split: option.splits if_splits)

lemma argo_Create_world:
  "argo_Create flt now namespace obj w = (r, w') \<Longrightarrow>
     committed w' = committed w \<and> next_version_id w' = next_version_id w
     \<and> next_template_id w' = next_template_id w"
  by (auto simp: argo_Create_def record_request_def Let_def split: option.splits if_splits)

lemma CreateWorkflowTemplateVersion_tables:
  assumes "CreateWorkflowTemplateVersion col flt namespace wt w = (r, w')"
  shows "(isl r \<and> committed w' = committed w \<and> next_template_id w' = next_template_id w
            \<and> next_version_id w \<le> next_version_id w')
       \<or> (\<exists>t rest. template_rows_for namespace (UID wt) (committed w) = t # rest
             \<and> committed w' = appended (t_id t) (Now_Unix col) (Manifest wt) (next_version_id w) (committed w)
             \<and> next_template_id w' = next_template_id w
             \<and> next_version_id w' = Suc (next_version_id w))"
  using assms
  unfolding CreateWorkflowTemplateVersion_def Let_def template_query_def [symmetric]
  by (auto simp: Let_def ToSql_template_query DB_Get_template_query update_versions_not_latest_def
        insert_version_def commit_def appended_def scanned_template_def
      split: sum.splits option.splits prod.splits list.splits
      dest!: getArgoWorkflowTemplate_world argo_Update_world argo_Create_world)

lemma createWorkflowTemplate_tables:
  assumes "createWorkflowTemplate col flt namespace wt w = (r, w')"
  shows "(committed w' = committed w \<and> next_template_id w \<le> next_template_id w'
            \<and> next_version_id w \<le> next_version_id w')
       \<or> (\<exists>trow m. committed w' =
               \<lparr>templates = templates (committed w) @ [trow\<lparr>t_id := next_template_id w\<rparr>],
                versions = versions (committed w) @
                  [\<lparr>v_id = next_version_id w, v_workflow_template_id = next_template_id w,
                    v_version = Now_Unix col, v_is_latest = True, v_manifest = m,
                    v_created_at = Now_Unix col\<rparr>]\<rparr>
             \<and> next_template_id w' = Suc (next_template_id w)
             \<and> next_version_id w' = Suc (next_version_id w))"
proof (cases r)
  case (Inl e)
  with assms show ?thesis
    unfolding create_defs
    by (auto split: sum.splits option.splits prod.splits if_splits)
next
  case (Inr created)
  with assms have run: "createWorkflowTemplate col flt namespace wt w = (Inr created, w')"
    by simp
  have ids: "next_template_id w' = Suc (next_template_id w) \<and> next_version_id w' = Suc (next_version_id w)"
    using run unfolding create_defs
    by (auto split: sum.splits option.splits prod.splits if_splits)
  from createWorkflowTemplate_Inr [OF run]
  obtain uid and wt1 :: WorkflowTemplate where
    ts: "templates (committed w') = templates (committed w) @
                  [\<lparr>t_id = next_template_id w, t_uid = uid, t_name = Name wt1, t_namespace = namespace,
                    t_is_archived = False, t_created_at = Now_Unix col\<rparr>]"
    and vs: "versions (committed w') = versions (committed w) @
                  [\<lparr>v_id = next_version_id w, v_workflow_template_id = next_template_id w,
                    v_version = Now_Unix col, v_is_latest = True, v_manifest = Manifest wt1,
                    v_created_at = Now_Unix col\<rparr>]"
    by blast
  let ?trow = "\<lparr>t_id = next_template_id w, t_uid = uid, t_name = Name wt1, t_namespace = namespace,
                    t_is_archived = False, t_created_at = Now_Unix col\<rparr>"
  have "committed w' =
               \<lparr>templates = templates (committed w) @ [?trow\<lparr>t_id := next_template_id w\<rparr>],
                versions = versions (committed w) @
                  [\<lparr>v_id = next_version_id w, v_workflow_template_id = next_template_id w,
                    v_version = Now_Unix col, v_is_latest = True, v_manifest = Manifest wt1,
                    v_created_at = Now_Unix col\<rparr>]\<rparr>"
    using ts vs by (cases "committed w'") simp
  with ids show ?thesis by blast
qed

lemma latest_rows_appended_same:
  "latest_rows tid (appended tid version manifest new_id db) =
     [\<lparr>v_id = new_id, v_workflow_template_id = tid, v_version = version,
       v_is_latest = True, v_manifest = manifest, v_created_at = version\<rparr>]"
  by (simp add: latest_rows_def appended_def filter_map comp_def)

lemma filter_latest_demoted_other:
  "tid' \<noteq> tid \<Longrightarrow>
     filter (\<lambda>v. v_workflow_template_id v = tid' \<and> v_is_latest v)
       (map (\<lambda>v. if v_workflow_template_id v = tid then v\<lparr>v_is_latest := False\<rparr> else v) xs)
     = filter (\<lambda>v. v_workflow_template_id v = tid' \<and> v_is_latest v) xs"
  by (induction xs) auto

lemma latest_rows_appended_other:
  "tid' \<noteq> tid \<Longrightarrow> latest_rows tid' (appended tid version manifest new_id db) = latest_rows tid' db"
  by (simp add: latest_rows_def appended_def filter_latest_demoted_other)

lemma tables_ok_unchanged:
  assumes "tables_ok w" and "committed w' = committed w"
      and "next_template_id w \<le> next_template_id w'" and "next_version_id w \<le> next_version_id w'"
  shows "tables_ok w'"
  using assms unfolding tables_ok_def
  by (auto intro: less_le_trans)

lemma latest_rows_snoc:
  "latest_rows tid (db\<lparr>versions := versions db @ [v]\<rparr>) =
     latest_rows tid db @ (if v_workflow_template_id v = tid \<and> v_is_latest v then [v] else [])"
  by (simp add: latest_rows_def)

lemma latest_rows_none:
  assumes "\<forall>v \<in> set (versions db). v_workflow_template_id v < tid"
  shows "latest_rows tid db = []"
  using assms by (auto simp: latest_rows_def filter_empty_conv)

lemma latest_rows_templates: "latest_rows tid (db\<lparr>templates := ts\<rparr>) = latest_rows tid db"
  by (simp add: latest_rows_def)

lemma tables_ok_created:
  assumes ok: "tables_ok w"
      and c: "committed w' =
               \<lparr>templates = templates (committed w) @ [trow\<lparr>t_id := next_template_id w\<rparr>],
                versions = versions (committed w) @
                  [\<lparr>v_id = next_version_id w, v_workflow_template_id = next_template_id w,
                    v_version = ver, v_is_latest = True, v_manifest = m, v_created_at = ver\<rparr>]\<rparr>"
      and nt: "next_template_id w' = Suc (next_template_id w)"
      and nv: "next_version_id w' = Suc (next_version_id w)"
  shows "tables_ok w'"
proof -
  let ?new = "\<lparr>v_id = next_version_id w, v_workflow_template_id = next_template_id w,
                    v_version = ver, v_is_latest = True, v_manifest = m, v_created_at = ver\<rparr>"
  have c': "committed w' = ((committed w)\<lparr>templates := templates (committed w) @ [trow\<lparr>t_id := next_template_id w\<rparr>]\<rparr>)
                             \<lparr>versions := versions (committed w) @ [?new]\<rparr>"
    using c by simp
  have lr: "\<And>tid. latest_rows tid (committed w') =
              latest_rows tid (committed w) @ (if next_template_id w = tid then [?new] else [])"
    unfolding c' by (simp add: latest_rows_def)
  from ok have old: "\<forall>v \<in> set (versions (committed w)). v_workflow_template_id v < next_template_id w"
    by (simp add: tables_ok_def)
  have "\<forall>t \<in> set (templates (committed w')).
          t_id t < next_template_id w' \<and> length (latest_rows (t_id t) (committed w')) = 1"
  proof
    fix t assume "t \<in> set (templates (committed w'))"
    then consider "t \<in> set (templates (committed w))" | "t = trow\<lparr>t_id := next_template_id w\<rparr>"
      using c by auto
    then show "t_id t < next_template_id w' \<and> length (latest_rows (t_id t) (committed w')) = 1"
    proof cases
      case 1
      with ok have "t_id t < next_template_id w" "length (latest_rows (t_id t) (committed w)) = 1"
        by (simp_all add: tables_ok_def)
      then show ?thesis by (simp add: lr nt)
    next
      case 2
      then have "t_id t = next_template_id w" by simp
      moreover have "latest_rows (next_template_id w) (committed w) = []"
        using old by (rule latest_rows_none)
      ultimately show ?thesis by (simp add: lr nt)
    qed
  qed
  moreover have "\<forall>v \<in> set (versions (committed w')).
            v_id v < next_version_id w' \<and> v_workflow_template_id v < next_template_id w'"
    using ok c by (auto simp: tables_ok_def nt nv less_Suc_eq)
  ultimately show ?thesis
    by (simp add: tables_ok_def)
qed

lemma tables_ok_appended:
  assumes ok: "tables_ok w"
      and t: "t \<in> set (templates (committed w))"
      and c: "committed w' = appended (t_id t) ver m (next_version_id w) (committed w)"
      and nt: "next_template_id w' = next_template_id w"
      and nv: "next_version_id w' = Suc (next_version_id w)"
  shows "tables_ok w'"
proof -
  have ts: "templates (committed w') = templates (committed w)"
    using c by (simp add: appended_def)
  have "\<forall>x \<in> set (templates (committed w')).
          t_id x < next_template_id w' \<and> length (latest_rows (t_id x) (committed w')) = 1"
  proof
    fix x assume "x \<in> set (templates (committed w'))"
    with ts ok have x: "t_id x < next_template_id w" "length (latest_rows (t_id x) (committed w)) = 1"
      by (simp_all add: tables_ok_def)
    show "t_id x < next_template_id w' \<and> length (latest_rows (t_id x) (committed w')) = 1"
    proof (cases "t_id x = t_id t")
      case True
      with x show ?thesis by (simp add: c nt latest_rows_appended_same)
    next
      case False
      with x show ?thesis by (simp add: c nt latest_rows_appended_other)
    qed
  qed
  moreover from ok t have "t_id t < next_template_id w"
    by (simp add: tables_ok_def)
  with ok have "\<forall>v \<in> set (versions (committed w')).
            v_id v < next_version_id w' \<and> v_workflow_template_id v < next_template_id w'"
    by (auto simp: tables_ok_def c appended_def nt nv less_Suc_eq)
  ultimately show ?thesis
    by (simp add: tables_ok_def)
qed

lemma tables_ok_archived:
  assumes ok: "tables_ok w"
      and c: "committed w' = (committed w)\<lparr>templates := archived_rows namespace uid (templates (committed w))\<rparr>"
      and nt: "next_template_id w' = next_template_id w"
      and nv: "next_version_id w' = next_version_id w"
  shows "tables_ok w'"
proof -
  have "\<And>x. x \<in> set (archived_rows namespace uid (templates (committed w))) \<Longrightarrow>
          \<exists>y \<in> set (templates (committed w)). t_id x = t_id y"
    by (auto simp: archived_rows_def)
  with ok show ?thesis
    unfolding tables_ok_def c nt nv
    by (fastforce simp: latest_rows_templates)
qed

lemma ArchiveWorkflowTemplate_tables:
  assumes "ArchiveWorkflowTemplate flt namespace uid w = (b, w')"
  shows "(committed w' = committed w
          \<or> committed w' = (committed w)\<lparr>templates := archived_rows namespace uid (templates (committed w))\<rparr>)
       \<and> next_template_id w' = next_template_id w \<and> next_version_id w' = next_version_id w"
  using assms
  by (auto simp: ArchiveWorkflowTemplate_eq Let_def record_request_def split: if_splits option.splits)

end
